theory Spec2Isabelle
  imports Main
begin

section \<open>Errors\<close>

text \<open>
  Every error return of the Go code is a value. \<open>ErrSyntax\<close> and \<open>ErrRange\<close> are the two
  errors of \<open>strconv.ParseInt\<close>; \<open>CannotParseQuoteID\<close> is the wrapping
  \<open>fmt.Errorf("cannot parse quote ID: %w", err)\<close>; \<open>QuoteWithoutAuthor\<close> is
  \<open>fmt.Errorf("quote without author")\<close>; \<open>Failure\<close> stands for an error handed back by a
  collaborator that lives outside the two source files (recipient lookup, mention parsing,
  the SQL layer, the JSON decoder).
\<close>

datatype error =
    ErrSyntax
  | ErrRange
  | CannotParseQuoteID error
  | QuoteWithoutAuthor
  | Failure string

section \<open>signal/quote.go: data\<close>

text \<open>
  The types \<open>Recipient\<close>, \<open>mentionJSON\<close> and \<open>Mention\<close> are declared outside the source
  files at hand; they are the type parameters \<open>'r\<close>, \<open>'mj\<close> and \<open>'m\<close>. A Go pointer
  \<open>*T\<close> is a \<open>T option\<close>, \<open>nil\<close> being \<open>None\<close>.
\<close>

record quoteAttachmentJSON =
  qaj_ContentType :: string
  qaj_FileName :: string

text \<open>
  \<open>quoteJSON.ID\<close> is a \<open>*json.Number\<close>: the literal text of the number, whether the JSON
  held it as a number or as a string, or \<open>nil\<close>.
\<close>

record 'mj quoteJSON =
  qj_Attachments :: "quoteAttachmentJSON list"
  qj_Author :: string
  qj_AuthorUUID :: string
  qj_AuthorACI :: string
  qj_Mentions :: "'mj list"
  qj_ID :: "string option"
  qj_Text :: string

record 'm MessageBody =
  mb_Text :: string
  mb_Mentions :: "'m list"

record QuoteAttachment =
  qa_FileName :: string
  qa_ContentType :: string

datatype ('r, 'm) Quote = Quote
  (q_Recipient: "'r option")
  (q_TimeSent: int)
  (q_Body: "'m MessageBody")
  (q_Attachments: "QuoteAttachment list")
  (q_QuotedQuote: "('r, 'm) Quote option")

text \<open>
  \<open>signal.Context\<close>, as far as \<open>quote.go\<close> and the exporter use it. Its methods and the
  database handle are declared outside the source files at hand, so each is a field:
  \<^item> \<open>recipientFromACI\<close>, \<open>recipientFromPhone\<close>: \<open>(*Recipient, error)\<close>;
  \<^item> \<open>parseMentionJSON\<close>: \<open>([]Mention, error)\<close>;
  \<^item> \<open>LongTextType\<close>: the package constant of that name;
  \<^item> \<open>db_Prepare\<close>: the error of \<open>c.db.Prepare(query)\<close>, if any;
  \<^item> \<open>stmt_BindInt64\<close>: the error of \<open>stmt.BindInt64(1, sentAt)\<close>, if any;
  \<^item> \<open>stmt_Step\<close>: \<open>None\<close> when \<open>stmt.Step()\<close> is false for the bound timestamp,
    otherwise \<open>stmt.ColumnText(0)\<close> of the row stepped to;
  \<^item> \<open>jsonUnmarshal\<close>: \<open>json.Unmarshal\<close> of a stored message into
    \<open>struct { Quote *quoteJSON }\<close>: its error, or the decoded \<open>Quote\<close> field;
  \<^item> \<open>SelfRecipient\<close>: \<open>(*Recipient, error)\<close>.
\<close>

record ('r, 'mj, 'm) Context =
  recipientFromACI :: "string \<Rightarrow> error + 'r option"
  recipientFromPhone :: "string \<Rightarrow> error + 'r option"
  parseMentionJSON :: "'mj list \<Rightarrow> error + 'm list"
  LongTextType :: string
  db_Prepare :: "string \<Rightarrow> error option"
  stmt_BindInt64 :: "int \<Rightarrow> error option"
  stmt_Step :: "int \<Rightarrow> string option"
  jsonUnmarshal :: "string \<Rightarrow> error + 'mj quoteJSON option"
  SelfRecipient :: "error + 'r option"

section \<open>json.Number.Int64\<close>

text \<open>
  \<open>jqte.ID.Int64()\<close> is \<open>strconv.ParseInt(string(n), 10, 64)\<close> of the Go standard
  library: an optional sign, then \<open>ParseUint\<close> in base 10 on 64 bits, then the range
  check of a signed 64-bit integer.
\<close>

definition isDigit :: "char \<Rightarrow> bool" where
  "isDigit c = (48 \<le> (of_char c :: nat) \<and> (of_char c :: nat) \<le> 57)"

definition digitVal :: "char \<Rightarrow> nat" where
  "digitVal c = (of_char c :: nat) - 48"

definition maxUint64 :: nat where
  "maxUint64 = 18446744073709551615"

text \<open>The loop of \<open>ParseUint\<close>: a byte that is no digit is a syntax error; an
  accumulator that would leave 64 bits is a range error, raised at the byte where it
  happens.\<close>

fun parseUintLoop :: "string \<Rightarrow> nat \<Rightarrow> error + nat" where
  "parseUintLoop [] n = Inr n"
| "parseUintLoop (c # cs) n =
     (if \<not> isDigit c then Inl ErrSyntax
      else if n \<ge> maxUint64 div 10 + 1 then Inl ErrRange
      else if n * 10 + digitVal c > maxUint64 then Inl ErrRange
      else parseUintLoop cs (n * 10 + digitVal c))"

definition ParseUint :: "string \<Rightarrow> error + nat" where
  "ParseUint s = (if s = [] then Inl ErrSyntax else parseUintLoop s 0)"

definition Int64 :: "string \<Rightarrow> error + int" where
  "Int64 s =
     (if s = [] then Inl ErrSyntax
      else
        let neg = (hd s = CHR ''-'');
            s' = (if hd s = CHR ''+'' \<or> hd s = CHR ''-'' then tl s else s)
        in case ParseUint s' of
             Inl e \<Rightarrow> Inl e
           | Inr un \<Rightarrow>
               if \<not> neg \<and> un \<ge> 2 ^ 63 then Inl ErrRange
               else if neg \<and> un > 2 ^ 63 then Inl ErrRange
               else Inr (if neg then - int un else int un))"

section \<open>signal/quote.go: parseQuoteJSONWithDepth and findQuoteOfMessage\<close>

definition maxDepth :: int where
  "maxDepth = 10"

text \<open>Lines 77 to 81: the quoted message's send timestamp.\<close>

definition quoteTimeSent :: "('mj, 'x) quoteJSON_scheme \<Rightarrow> error + int" where
  "quoteTimeSent jqte =
     (case qj_ID jqte of
        None \<Rightarrow> Inr (- 1)
      | Some n \<Rightarrow>
          (case Int64 n of
             Inl err \<Rightarrow> Inl (CannotParseQuoteID err)
           | Inr t \<Rightarrow> Inr t))"

text \<open>Lines 83 to 98: the \<open>switch\<close> that finds the author.\<close>

definition quoteRecipient ::
  "('r, 'mj, 'm) Context \<Rightarrow> 'mj quoteJSON \<Rightarrow> error + 'r option" where
  "quoteRecipient c jqte =
     (if qj_AuthorACI jqte \<noteq> [] then recipientFromACI c (qj_AuthorACI jqte)
      else if qj_AuthorUUID jqte \<noteq> [] then recipientFromACI c (qj_AuthorUUID jqte)
      else if qj_Author jqte \<noteq> [] then recipientFromPhone c (qj_Author jqte)
      else Inl QuoteWithoutAuthor)"

text \<open>Lines 106 to 116: the loop over the attachments, appending to \<open>qte.Attachments\<close>.\<close>

fun quoteAttachments ::
  "string \<Rightarrow> quoteAttachmentJSON list \<Rightarrow> QuoteAttachment list \<Rightarrow> QuoteAttachment list" where
  "quoteAttachments ltt [] acc = acc"
| "quoteAttachments ltt (jatt # rest) acc =
     (if qaj_ContentType jatt = ltt then quoteAttachments ltt rest acc
      else quoteAttachments ltt rest
             (acc @ [\<lparr>qa_FileName = qaj_FileName jatt,
                      qa_ContentType = qaj_ContentType jatt\<rparr>]))"

definition findQuery :: string where
  "findQuery = ''SELECT json FROM messages WHERE sent_at = ? LIMIT 1''"

function parseQuoteJSONWithDepth ::
    "('r, 'mj, 'm) Context \<Rightarrow> 'mj quoteJSON option \<Rightarrow> int \<Rightarrow> error + ('r, 'm) Quote option"
  and findQuoteOfMessage ::
    "('r, 'mj, 'm) Context \<Rightarrow> int \<Rightarrow> int \<Rightarrow> error + ('r, 'm) Quote option"
where
  "parseQuoteJSONWithDepth c jqte depth =
     (case jqte of
        None \<Rightarrow> Inr None
      | Some j \<Rightarrow>
          if depth \<ge> maxDepth then Inr None
          else
            (case quoteTimeSent j of
               Inl err \<Rightarrow> Inl err
             | Inr ts \<Rightarrow>
                 (case quoteRecipient c j of
                    Inl err \<Rightarrow> Inl err
                  | Inr rpt \<Rightarrow>
                      (case parseMentionJSON c (qj_Mentions j) of
                         Inl err \<Rightarrow> Inl err
                       | Inr ms \<Rightarrow>
                           Inr (Some (Quote rpt ts
                             \<lparr>mb_Text = qj_Text j, mb_Mentions = ms\<rparr>
                             (quoteAttachments (LongTextType c) (qj_Attachments j) [])
                             (if ts > 0 then
                                (case findQuoteOfMessage c ts (depth + 1) of
                                   Inl err \<Rightarrow> None
                                 | Inr quotedQuote \<Rightarrow> quotedQuote)
                              else None)))))))"
| "findQuoteOfMessage c sentAt depth =
     (case db_Prepare c findQuery of
        Some err \<Rightarrow> Inl err
      | None \<Rightarrow>
          (case stmt_BindInt64 c sentAt of
             Some err \<Rightarrow> Inl err
           | None \<Rightarrow>
               (case stmt_Step c sentAt of
                  None \<Rightarrow> Inr None
                | Some jsonStr \<Rightarrow>
                    if jsonStr = [] then Inr None
                    else
                      (case jsonUnmarshal c jsonStr of
                         Inl err \<Rightarrow> Inr None
                       | Inr None \<Rightarrow> Inr None
                       | Inr (Some q) \<Rightarrow> parseQuoteJSONWithDepth c (Some q) depth))))"
  by pat_completeness auto
termination
  by (relation "measure (\<lambda>x. case x of
         Inl (c, jqte, depth) \<Rightarrow> 2 * nat (11 - depth)
       | Inr (c, sentAt, depth) \<Rightarrow> 2 * nat (11 - depth) + 1)")
     (auto simp: maxDepth_def)

declare parseQuoteJSONWithDepth.simps [simp del]
declare findQuoteOfMessage.simps [simp del]

definition parseQuoteJSON ::
  "('r, 'mj, 'm) Context \<Rightarrow> 'mj quoteJSON option \<Rightarrow> error + ('r, 'm) Quote option" where
  "parseQuoteJSON c jqte = parseQuoteJSONWithDepth c jqte 0"

section \<open>The exporter: data\<close>

text \<open>
  The structs of package \<open>signal\<close> that the exporter reads are declared outside the
  source files at hand; each record holds the fields that \<open>jsonWriteMessages\<close> reads.
  Slices are lists, the \<open>nil\<close> slice being \<open>[]\<close>.
\<close>

record Attachment =
  att_FileName :: string
  att_ContentType :: string
  att_Size :: int

record 'r Reaction =
  rct_Emoji :: string
  rct_Recipient :: "'r option"

record ('r, 'm) Edit =
  ed_TimeEdit :: int
  ed_Body :: "'m MessageBody"
  ed_Attachments :: "Attachment list"
  ed_Quote :: "('r, 'm) Quote option"

record 'r GroupV2Change =
  gc_Type :: string
  gc_Count :: int
  gc_NewTitle :: string
  gc_Description :: string
  gc_Who :: "'r option"
  gc_Inviter :: "'r option"

record ('r, 'm) Message =
  msg_Conversation :: "'r option"
  msg_Type :: string
  msg_Source :: "'r option"
  msg_TimeSent :: int
  msg_TimeRecv :: int
  msg_Body :: "'m MessageBody"
  msg_Attachments :: "Attachment list"
  msg_Reactions :: "'r Reaction list"
  msg_Quote :: "('r, 'm) Quote option"
  msg_Edits :: "('r, 'm) Edit list"
  msg_GroupV2Change :: "'r GroupV2Change list"

text \<open>
  What the exporter calls and the two source files do not define:
  \<^item> \<open>DetailedDisplayName\<close>: the method of \<open>*Recipient\<close>; it receives the pointer as
    it is;
  \<^item> \<open>IsOutgoing\<close>: the method of \<open>Message\<close>;
  \<^item> \<open>timeFormat\<close>: \<open>time.UnixMilli(msec).Format("2006-01-02 15:04:05")\<close>, which
    depends on the local time zone.
\<close>

record ('r, 'm) Extern =
  DetailedDisplayName :: "'r option \<Rightarrow> string"
  IsOutgoing :: "('r, 'm) Message \<Rightarrow> bool"
  timeFormat :: "int \<Rightarrow> string"

text \<open>The export structs, lines 27 to 80.\<close>

record jsonAttachment =
  ja_FileName :: string
  ja_ContentType :: string
  ja_Size :: int

record jsonReaction =
  jr_Emoji :: string
  jr_From :: string

datatype jsonQuote = JsonQuote
  (jq_From: string)
  (jq_Sent: string)
  (jq_Body: string)
  (jq_Attachments: "jsonAttachment list")
  (jq_Quote: "jsonQuote option")

record jsonEdit =
  je_Version :: int
  je_Sent :: string
  je_Body :: string
  je_Attachments :: "jsonAttachment list"
  je_Quote :: "jsonQuote option"

record jsonGroupV2Change =
  jgc_Action :: string
  jgc_Who :: string
  jgc_InvitedBy :: string
  jgc_Count :: int
  jgc_NewTitle :: string
  jgc_Description :: string

record jsonMessage =
  jm_From :: string
  jm_Type :: string
  jm_Sent :: string
  jm_SentUnix :: int
  jm_Received :: string
  jm_Body :: string
  jm_Attachments :: "jsonAttachment list"
  jm_Reactions :: "jsonReaction list"
  jm_Quote :: "jsonQuote option"
  jm_Edits :: "jsonEdit list"
  jm_GroupV2Change :: "jsonGroupV2Change list"

record jsonExport =
  jx_Conversation :: string
  jx_Messages :: "jsonMessage list"

section \<open>The exporter: helpers\<close>

definition formatTime :: "('r, 'm) Extern \<Rightarrow> int \<Rightarrow> string" where
  "formatTime x msec = (if msec \<le> 0 then [] else timeFormat x msec)"

fun convertAttachmentsLoop :: "Attachment list \<Rightarrow> jsonAttachment list \<Rightarrow> jsonAttachment list" where
  "convertAttachmentsLoop [] result = result"
| "convertAttachmentsLoop (att # atts) result =
     convertAttachmentsLoop atts
       (result @ [\<lparr>ja_FileName = att_FileName att,
                   ja_ContentType = att_ContentType att,
                   ja_Size = att_Size att\<rparr>])"

definition convertAttachments :: "Attachment list \<Rightarrow> jsonAttachment list" where
  "convertAttachments atts = (if length atts = 0 then [] else convertAttachmentsLoop atts [])"

text \<open>The loop of \<open>convertQuote\<close>, lines 211 to 216: no size is set, so \<open>Size\<close> keeps
  its zero value.\<close>

fun convertQuoteAttachments ::
  "QuoteAttachment list \<Rightarrow> jsonAttachment list \<Rightarrow> jsonAttachment list" where
  "convertQuoteAttachments [] acc = acc"
| "convertQuoteAttachments (att # atts) acc =
     convertQuoteAttachments atts
       (acc @ [\<lparr>ja_FileName = qa_FileName att,
                ja_ContentType = qa_ContentType att,
                ja_Size = 0\<rparr>])"

text \<open>\<open>convertQuote\<close> on a quote that is not \<open>nil\<close>; the recursion follows
  \<open>QuotedQuote\<close>.\<close>

fun convertQuoteSome :: "('r, 'm) Extern \<Rightarrow> ('r, 'm) Quote \<Rightarrow> jsonQuote" where
  "convertQuoteSome x (Quote rpt ts body atts qq) =
     JsonQuote
       (DetailedDisplayName x rpt)
       (if ts > 0 then formatTime x ts else [])
       (mb_Text body)
       (convertQuoteAttachments atts [])
       (case qq of None \<Rightarrow> None | Some q \<Rightarrow> Some (convertQuoteSome x q))"

definition convertQuote :: "('r, 'm) Extern \<Rightarrow> ('r, 'm) Quote option \<Rightarrow> jsonQuote option" where
  "convertQuote x qte = (case qte of None \<Rightarrow> None | Some q \<Rightarrow> Some (convertQuoteSome x q))"

definition formatGroupV2ChangeAction :: "string \<Rightarrow> string" where
  "formatGroupV2ChangeAction actionType =
     (if actionType = ''member-add'' then ''Member added''
      else if actionType = ''member-remove'' then ''Member removed''
      else if actionType = ''member-add-from-invite'' then ''Member joined from invite''
      else if actionType = ''member-add-from-link'' then ''Member joined via link''
      else if actionType = ''pending-add-many'' then ''Invitations sent''
      else if actionType = ''admin-approval-add-one'' then ''Requested to join''
      else if actionType = ''title'' then ''Title changed''
      else if actionType = ''description'' then ''Description changed''
      else if actionType = ''avatar'' then ''Avatar changed''
      else if actionType = ''access-attributes'' then ''Group settings changed''
      else if actionType = ''announcements-only'' then ''Announcements only mode changed''
      else if actionType = ''access-members'' then ''Member access changed''
      else if actionType = ''member-privilege'' then ''Member privilege changed''
      else actionType)"

section \<open>The exporter: the body of the loop over the messages\<close>

text \<open>Lines 125 to 130.\<close>

fun reactionsLoop ::
  "('r, 'm) Extern \<Rightarrow> 'r Reaction list \<Rightarrow> jsonReaction list \<Rightarrow> jsonReaction list" where
  "reactionsLoop x [] acc = acc"
| "reactionsLoop x (rct # rcts) acc =
     reactionsLoop x rcts
       (acc @ [\<lparr>jr_Emoji = rct_Emoji rct,
                jr_From = DetailedDisplayName x (rct_Recipient rct)\<rparr>])"

text \<open>Lines 134 to 142: \<open>n\<close> is \<open>len(msg.Edits)\<close>, \<open>i\<close> the index of the loop.\<close>

fun editsLoop ::
  "('r, 'm) Extern \<Rightarrow> int \<Rightarrow> int \<Rightarrow> ('r, 'm) Edit list \<Rightarrow> jsonEdit list \<Rightarrow> jsonEdit list" where
  "editsLoop x n i [] acc = acc"
| "editsLoop x n i (edit # edits) acc =
     editsLoop x n (i + 1) edits
       (acc @ [\<lparr>je_Version = n - i,
                je_Sent = formatTime x (ed_TimeEdit edit),
                je_Body = mb_Text (ed_Body edit),
                je_Attachments = convertAttachments (ed_Attachments edit),
                je_Quote = convertQuote x (ed_Quote edit)\<rparr>])"

text \<open>Lines 147 to 162: one group change.\<close>

definition groupV2ChangeRecord ::
  "('r, 'm) Extern \<Rightarrow> 'r GroupV2Change \<Rightarrow> jsonGroupV2Change" where
  "groupV2ChangeRecord x gc =
     (let jgc = \<lparr>jgc_Action = formatGroupV2ChangeAction (gc_Type gc),
                 jgc_Who = [],
                 jgc_InvitedBy = [],
                 jgc_Count = gc_Count gc,
                 jgc_NewTitle = gc_NewTitle gc,
                 jgc_Description = gc_Description gc\<rparr>;
          jgc = (if gc_Who gc \<noteq> None
                 then jgc\<lparr>jgc_Who := DetailedDisplayName x (gc_Who gc)\<rparr> else jgc);
          jgc = (if gc_Inviter gc \<noteq> None
                 then jgc\<lparr>jgc_InvitedBy := DetailedDisplayName x (gc_Inviter gc)\<rparr> else jgc);
          jgc = (if gc_Count gc = 0 then jgc\<lparr>jgc_Count := 0\<rparr> else jgc)
      in jgc)"

fun groupV2ChangeLoop ::
  "('r, 'm) Extern \<Rightarrow> 'r GroupV2Change list \<Rightarrow> jsonGroupV2Change list
     \<Rightarrow> jsonGroupV2Change list" where
  "groupV2ChangeLoop x [] acc = acc"
| "groupV2ChangeLoop x (gc # gcs) acc =
     groupV2ChangeLoop x gcs (acc @ [groupV2ChangeRecord x gc])"

text \<open>Lines 95 to 164: the record of one message; \<open>selfName\<close> is the label computed at
  lines 89 to 92.\<close>

definition messageRecord ::
  "('r, 'm) Extern \<Rightarrow> string \<Rightarrow> ('r, 'm) Message \<Rightarrow> jsonMessage" where
  "messageRecord x selfName msg =
     \<lparr>jm_From =
        (if IsOutgoing x msg then selfName
         else if msg_Source msg \<noteq> None then DetailedDisplayName x (msg_Source msg)
         else []),
      jm_Type = msg_Type msg,
      jm_Sent = (if msg_TimeSent msg \<noteq> 0 then formatTime x (msg_TimeSent msg) else []),
      jm_SentUnix = (if msg_TimeSent msg \<noteq> 0 then msg_TimeSent msg else 0),
      jm_Received =
        (if \<not> IsOutgoing x msg \<and> msg_TimeRecv msg \<noteq> 0
         then formatTime x (msg_TimeRecv msg) else []),
      jm_Body = (if length (msg_Edits msg) = 0 then mb_Text (msg_Body msg) else []),
      jm_Attachments = convertAttachments (msg_Attachments msg),
      jm_Reactions = reactionsLoop x (msg_Reactions msg) [],
      jm_Quote = (if length (msg_Edits msg) = 0 then convertQuote x (msg_Quote msg) else None),
      jm_Edits =
        (if length (msg_Edits msg) > 0
         then editsLoop x (int (length (msg_Edits msg))) 0 (msg_Edits msg) []
         else []),
      jm_GroupV2Change = groupV2ChangeLoop x (msg_GroupV2Change msg) []\<rparr>"

fun messagesLoop ::
  "('r, 'm) Extern \<Rightarrow> string \<Rightarrow> ('r, 'm) Message list \<Rightarrow> jsonMessage list
     \<Rightarrow> jsonMessage list" where
  "messagesLoop x selfName [] acc = acc"
| "messagesLoop x selfName (msg # msgs) acc =
     messagesLoop x selfName msgs (acc @ [messageRecord x selfName msg])"

text \<open>Lines 89 to 92.\<close>

definition selfNameOf :: "('r, 'm) Extern \<Rightarrow> ('r, 'mj, 'm) Context \<Rightarrow> string" where
  "selfNameOf x ctx =
     (case SelfRecipient ctx of
        Inr (Some selfRpt) \<Rightarrow> DetailedDisplayName x (Some selfRpt)
      | _ \<Rightarrow> ''You'')"

text \<open>Lines 83 to 167: the export model. \<open>msgs[0]\<close> on an empty slice panics: \<open>None\<close>.\<close>

definition exportModel ::
  "('r, 'm) Extern \<Rightarrow> ('r, 'mj, 'm) Context \<Rightarrow> ('r, 'm) Message list \<Rightarrow> jsonExport option" where
  "exportModel x ctx msgs =
     (case msgs of
        [] \<Rightarrow> None
      | msg0 # _ \<Rightarrow>
          Some \<lparr>jx_Conversation = DetailedDisplayName x (msg_Conversation msg0),
                jx_Messages = messagesLoop x (selfNameOf x ctx) msgs []\<rparr>)"

section \<open>The exporter: what the struct tags emit\<close>

text \<open>
  \<open>enc.Encode(export)\<close> renders the export structs by their \<open>json\<close> tags. The document
  is modelled down to its tree: an object is the list of the fields it holds, in the
  order of the struct. A field tagged \<open>omitempty\<close> is left out when it holds the zero
  value of its type: the empty string, the number 0, the \<open>nil\<close> pointer, a slice of
  length 0.
\<close>

datatype json =
    JString string
  | JNumber int
  | JArray "json list"
  | JObject "(string \<times> json) list"

definition omitemptyString :: "string \<Rightarrow> string \<Rightarrow> (string \<times> json) list" where
  "omitemptyString k s = (if s = [] then [] else [(k, JString s)])"

definition omitemptyNumber :: "string \<Rightarrow> int \<Rightarrow> (string \<times> json) list" where
  "omitemptyNumber k n = (if n = 0 then [] else [(k, JNumber n)])"

definition omitemptyArray :: "string \<Rightarrow> json list \<Rightarrow> (string \<times> json) list" where
  "omitemptyArray k vs = (if vs = [] then [] else [(k, JArray vs)])"

definition omitemptyPointer :: "string \<Rightarrow> json option \<Rightarrow> (string \<times> json) list" where
  "omitemptyPointer k p = (case p of None \<Rightarrow> [] | Some v \<Rightarrow> [(k, v)])"

definition encodeAttachment :: "jsonAttachment \<Rightarrow> json" where
  "encodeAttachment a =
     JObject (omitemptyString ''filename'' (ja_FileName a)
       @ [(''content_type'', JString (ja_ContentType a)), (''size'', JNumber (ja_Size a))])"

definition encodeReaction :: "jsonReaction \<Rightarrow> json" where
  "encodeReaction r = JObject [(''emoji'', JString (jr_Emoji r)), (''from'', JString (jr_From r))]"

fun encodeQuote :: "jsonQuote \<Rightarrow> json" where
  "encodeQuote (JsonQuote frm sent body atts q) =
     JObject ([(''from'', JString frm)]
       @ omitemptyString ''sent'' sent
       @ omitemptyString ''body'' body
       @ omitemptyArray ''attachments'' (map encodeAttachment atts)
       @ omitemptyPointer ''quote'' (case q of None \<Rightarrow> None | Some q' \<Rightarrow> Some (encodeQuote q')))"

definition encodeEdit :: "jsonEdit \<Rightarrow> json" where
  "encodeEdit e =
     JObject ([(''version'', JNumber (je_Version e))]
       @ omitemptyString ''sent'' (je_Sent e)
       @ omitemptyString ''body'' (je_Body e)
       @ omitemptyArray ''attachments'' (map encodeAttachment (je_Attachments e))
       @ omitemptyPointer ''quote'' (map_option encodeQuote (je_Quote e)))"

definition encodeGroupV2Change :: "jsonGroupV2Change \<Rightarrow> json" where
  "encodeGroupV2Change g =
     JObject ([(''action'', JString (jgc_Action g))]
       @ omitemptyString ''who'' (jgc_Who g)
       @ omitemptyString ''invited_by'' (jgc_InvitedBy g)
       @ omitemptyNumber ''count'' (jgc_Count g)
       @ omitemptyString ''new_title'' (jgc_NewTitle g)
       @ omitemptyString ''description'' (jgc_Description g))"

definition encodeMessage :: "jsonMessage \<Rightarrow> json" where
  "encodeMessage m =
     JObject ([(''from'', JString (jm_From m)), (''type'', JString (jm_Type m))]
       @ omitemptyString ''sent'' (jm_Sent m)
       @ omitemptyNumber ''sent_unix'' (jm_SentUnix m)
       @ omitemptyString ''received'' (jm_Received m)
       @ omitemptyString ''body'' (jm_Body m)
       @ omitemptyArray ''attachments'' (map encodeAttachment (jm_Attachments m))
       @ omitemptyArray ''reactions'' (map encodeReaction (jm_Reactions m))
       @ omitemptyPointer ''quote'' (map_option encodeQuote (jm_Quote m))
       @ omitemptyArray ''edits'' (map encodeEdit (jm_Edits m))
       @ omitemptyArray ''group_changes'' (map encodeGroupV2Change (jm_GroupV2Change m)))"

definition encodeExport :: "jsonExport \<Rightarrow> json" where
  "encodeExport ex =
     JObject [(''conversation'', JString (jx_Conversation ex)),
              (''messages'', JArray (map encodeMessage (jx_Messages ex)))]"

text \<open>
  \<open>jsonWriteMessages\<close> as a whole, lines 82 to 176: \<open>None\<close> is the panic on an empty
  slice; otherwise the document handed to the encoder and the error returned, which is
  the error of \<open>enc.Encode\<close> if it has one (\<open>encodeErr\<close>), else the writer's own
  (\<open>ewErr\<close>). The writer is declared outside the source files at hand.
\<close>

definition jsonWriteMessages ::
  "('r, 'm) Extern \<Rightarrow> ('r, 'mj, 'm) Context \<Rightarrow> error option \<Rightarrow> error option
     \<Rightarrow> ('r, 'm) Message list \<Rightarrow> (json \<times> error option) option" where
  "jsonWriteMessages x ctx encodeErr ewErr msgs =
     (case exportModel x ctx msgs of
        None \<Rightarrow> None
      | Some export \<Rightarrow>
          Some (encodeExport export,
                case encodeErr of Some err \<Rightarrow> Some err | None \<Rightarrow> ewErr))"

text \<open>The field of an object, by its key.\<close>

fun objectField :: "json \<Rightarrow> string \<Rightarrow> json option" where
  "objectField (JObject fs) k = map_of fs k"
| "objectField _ k = None"

section \<open>Measures of a resolved quote\<close>

text \<open>The number of quotes on the chain that starts at a quote and follows
  \<open>QuotedQuote\<close>.\<close>

fun chainLength :: "('r, 'm) Quote \<Rightarrow> nat" where
  "chainLength (Quote rpt ts body atts qq) =
     Suc (case qq of None \<Rightarrow> 0 | Some q \<Rightarrow> chainLength q)"

text \<open>The quotes along the chain that starts at a resolved quote and follows
  \<open>QuotedQuote\<close>, and the exported quotes along the chain of an exported quote.\<close>

fun quoteChain :: "('r, 'm) Quote \<Rightarrow> ('r, 'm) Quote list" where
  "quoteChain (Quote rpt ts body atts qq) =
     Quote rpt ts body atts qq # (case qq of None \<Rightarrow> [] | Some q \<Rightarrow> quoteChain q)"

fun jsonQuoteChain :: "jsonQuote \<Rightarrow> jsonQuote list" where
  "jsonQuoteChain (JsonQuote frm sent body atts qq) =
     JsonQuote frm sent body atts qq # (case qq of None \<Rightarrow> [] | Some q \<Rightarrow> jsonQuoteChain q)"

section \<open>Number literals\<close>

text \<open>
  What a \<open>json.Number\<close> can hold once decoded: \<open>isValidNumber\<close> of Go's
  \<open>encoding/json\<close>, the grammar of JSON numbers. The decoder stores the literal of a JSON
  number as it is, and accepts a JSON string for a \<open>json.Number\<close> only when this function
  holds of its content. \<open>exponentTail\<close> is the function from the exponent on,
  \<open>fractionTail\<close> from the fraction on.
\<close>

definition exponentTail :: "string \<Rightarrow> bool" where
  "exponentTail s =
     (if 2 \<le> length s \<and> (hd s = CHR ''e'' \<or> hd s = CHR ''E'') then
        (if hd (tl s) = CHR ''+'' \<or> hd (tl s) = CHR ''-'' then
           tl (tl s) \<noteq> [] \<and> dropWhile isDigit (tl (tl s)) = []
         else dropWhile isDigit (tl s) = [])
      else s = [])"

definition fractionTail :: "string \<Rightarrow> bool" where
  "fractionTail s =
     (if 2 \<le> length s \<and> hd s = CHR ''.'' \<and> isDigit (hd (tl s))
      then exponentTail (dropWhile isDigit (tl (tl s)))
      else exponentTail s)"

definition isValidNumber :: "string \<Rightarrow> bool" where
  "isValidNumber s =
     (if s = [] then False
      else
        let s1 = (if hd s = CHR ''-'' then tl s else s)
        in if s1 = [] then False
           else if hd s1 = CHR ''0'' then fractionTail (tl s1)
           else if isDigit (hd s1) then fractionTail (dropWhile isDigit (tl s1))
           else False)"

text \<open>
  The reading of a decimal integer literal, written without the loop of \<open>ParseUint\<close>: an
  optional sign, then at least one digit and digits only, the value in positional
  notation, kept when it lies in the range of a signed 64-bit integer.
\<close>

definition decimalValue :: "string \<Rightarrow> nat" where
  "decimalValue ds = foldl (\<lambda>n c. n * 10 + digitVal c) 0 ds"

definition integerLiteral :: "string \<Rightarrow> int option" where
  "integerLiteral s =
     (case s of
        [] \<Rightarrow> None
      | c # cs \<Rightarrow>
          let ds = (if c = CHR ''+'' \<or> c = CHR ''-'' then cs else s);
              v = (if c = CHR ''-'' then - int (decimalValue ds) else int (decimalValue ds))
          in if ds \<noteq> [] \<and> list_all isDigit ds \<and> - (2 ^ 63) \<le> v \<and> v < 2 ^ 63
             then Some v else None)"

section \<open>Concrete stores and quotes\<close>

text \<open>The quote of the specification's example: \<open>{authorAci: "X", id: 500, text: "orig"}\<close>.\<close>

definition exampleQuote :: "unit quoteJSON" where
  "exampleQuote =
     \<lparr>qj_Attachments = [], qj_Author = [], qj_AuthorUUID = [], qj_AuthorACI = ''X'',
      qj_Mentions = [], qj_ID = Some ''500'', qj_Text = ''orig''\<rparr>"

definition noAuthorQuote :: "unit quoteJSON" where
  "noAuthorQuote = exampleQuote\<lparr>qj_AuthorACI := []\<rparr>"

definition noAuthorBadIDQuote :: "unit quoteJSON" where
  "noAuthorBadIDQuote = exampleQuote\<lparr>qj_AuthorACI := [], qj_ID := Some ''1.5''\<rparr>"

text \<open>A context whose store holds no message; a recipient is its identifier.\<close>

definition emptyStore :: "(string, unit, unit) Context" where
  "emptyStore =
     \<lparr>recipientFromACI = (\<lambda>aci. Inr (Some aci)),
      recipientFromPhone = (\<lambda>phone. Inr (Some phone)),
      parseMentionJSON = (\<lambda>ms. Inr ms),
      LongTextType = ''text/x-signal-plain'',
      db_Prepare = (\<lambda>query. None),
      stmt_BindInt64 = (\<lambda>sentAt. None),
      stmt_Step = (\<lambda>sentAt. None),
      jsonUnmarshal = (\<lambda>jsonStr. Inr None),
      SelfRecipient = Inr None\<rparr>"

text \<open>A cyclic store: the message sent at 500 quotes the message sent at 500.\<close>

definition cyclicStore :: "(string, unit, unit) Context" where
  "cyclicStore =
     emptyStore\<lparr>stmt_Step := (\<lambda>sentAt. if sentAt = 500 then Some ''A'' else None),
                jsonUnmarshal := (\<lambda>jsonStr. Inr (Some exampleQuote))\<rparr>"

definition noIDQuote :: "unit quoteJSON" where
  "noIDQuote = exampleQuote\<lparr>qj_ID := None\<rparr>"

definition badIDQuote :: "unit quoteJSON" where
  "badIDQuote = exampleQuote\<lparr>qj_ID := Some ''1.5''\<rparr>"

text \<open>Collaborators of the exporter for the examples: a recipient is its name, a message
  is outgoing by its type, and every time is rendered as the same text.\<close>

definition stubExtern :: "(string, unit) Extern" where
  "stubExtern =
     \<lparr>DetailedDisplayName = (\<lambda>rpt. case rpt of None \<Rightarrow> ''Unknown'' | Some name \<Rightarrow> name),
      IsOutgoing = (\<lambda>msg. msg_Type msg = ''outgoing''),
      timeFormat = (\<lambda>msec. ''1970-01-01 00:00:01'')\<rparr>"

definition outgoingMessage :: "(string, unit) Message" where
  "outgoingMessage =
     \<lparr>msg_Conversation = Some ''Alice'', msg_Type = ''outgoing'', msg_Source = None,
      msg_TimeSent = 1000, msg_TimeRecv = 2000,
      msg_Body = \<lparr>mb_Text = ''hi'', mb_Mentions = []\<rparr>,
      msg_Attachments = [], msg_Reactions = [], msg_Quote = None, msg_Edits = [],
      msg_GroupV2Change = []\<rparr>"

definition incomingMessage :: "(string, unit) Message" where
  "incomingMessage = outgoingMessage\<lparr>msg_Type := ''incoming'', msg_Source := Some ''Alice''\<rparr>"

definition exampleEdit :: "int \<Rightarrow> string \<Rightarrow> (string, unit) Edit" where
  "exampleEdit t body =
     \<lparr>ed_TimeEdit = t, ed_Body = \<lparr>mb_Text = body, mb_Mentions = []\<rparr>,
      ed_Attachments = [], ed_Quote = None\<rparr>"

definition editedMessage :: "(string, unit) Message" where
  "editedMessage =
     incomingMessage\<lparr>msg_Edits :=
       [exampleEdit 1003 ''c'', exampleEdit 1002 ''b'', exampleEdit 1001 ''a'']\<rparr>"

definition exampleGroupChange :: "int \<Rightarrow> string GroupV2Change" where
  "exampleGroupChange n =
     \<lparr>gc_Type = ''pending-add-many'', gc_Count = n, gc_NewTitle = [], gc_Description = [],
      gc_Who = None, gc_Inviter = None\<rparr>"

definition groupMessage :: "(string, unit) Message" where
  "groupMessage =
     incomingMessage\<lparr>msg_GroupV2Change := [exampleGroupChange 0, exampleGroupChange 3]\<rparr>"

text \<open>A quote whose ID is the JSON number \<open>9223372036854775808\<close>, one above the largest
  signed 64-bit integer.\<close>

definition hugeIDQuote :: "unit quoteJSON" where
  "hugeIDQuote = exampleQuote\<lparr>qj_ID := Some ''9223372036854775808''\<rparr>"


text \<open>A resolved quote with one attachment, quoting an older message in turn; a message
  that carries it and has no edit; a message that carries it and has three edits.\<close>

definition exampleResolvedQuote :: "(string, unit) Quote" where
  "exampleResolvedQuote =
     Quote (Some ''X'') 500 \<lparr>mb_Text = ''orig'', mb_Mentions = []\<rparr>
       [\<lparr>qa_FileName = ''a.png'', qa_ContentType = ''image/png''\<rparr>]
       (Some (Quote (Some ''Y'') 0 \<lparr>mb_Text = ''older'', mb_Mentions = []\<rparr> [] None))"

definition quotingMessage :: "(string, unit) Message" where
  "quotingMessage = incomingMessage\<lparr>msg_Quote := Some exampleResolvedQuote\<rparr>"

definition editedQuotingMessage :: "(string, unit) Message" where
  "editedQuotingMessage = editedMessage\<lparr>msg_Quote := Some exampleResolvedQuote\<rparr>"

section \<open>Unfolding the resolver\<close>

lemmas Int64_eval =
  Int64_def ParseUint_def isDigit_def digitVal_def maxUint64_def Let_def

lemmas resolve_eval =
  parseQuoteJSON_def parseQuoteJSONWithDepth.simps findQuoteOfMessage.simps
  quoteTimeSent_def quoteRecipient_def maxDepth_def Int64_eval

lemma parse_at_maxDepth:
  "maxDepth \<le> depth \<Longrightarrow> parseQuoteJSONWithDepth c jqte depth = Inr None"
  by (subst parseQuoteJSONWithDepth.simps) (simp split: option.splits)

lemma parse_below_maxDepth:
  "depth < maxDepth \<Longrightarrow>
   parseQuoteJSONWithDepth c (Some j) depth =
     (case quoteTimeSent j of
        Inl err \<Rightarrow> Inl err
      | Inr ts \<Rightarrow>
          (case quoteRecipient c j of
             Inl err \<Rightarrow> Inl err
           | Inr rpt \<Rightarrow>
               (case parseMentionJSON c (qj_Mentions j) of
                  Inl err \<Rightarrow> Inl err
                | Inr ms \<Rightarrow>
                    Inr (Some (Quote rpt ts
                      \<lparr>mb_Text = qj_Text j, mb_Mentions = ms\<rparr>
                      (quoteAttachments (LongTextType c) (qj_Attachments j) [])
                      (if ts > 0 then
                         (case findQuoteOfMessage c ts (depth + 1) of
                            Inl err \<Rightarrow> None
                          | Inr quotedQuote \<Rightarrow> quotedQuote)
                       else None))))))"
  by (subst parseQuoteJSONWithDepth.simps) simp

lemma find_unfold:
  "findQuoteOfMessage c sentAt depth =
     (case db_Prepare c findQuery of
        Some err \<Rightarrow> Inl err
      | None \<Rightarrow>
          (case stmt_BindInt64 c sentAt of
             Some err \<Rightarrow> Inl err
           | None \<Rightarrow>
               (case stmt_Step c sentAt of
                  None \<Rightarrow> Inr None
                | Some jsonStr \<Rightarrow>
                    if jsonStr = [] then Inr None
                    else
                      (case jsonUnmarshal c jsonStr of
                         Inl err \<Rightarrow> Inr None
                       | Inr None \<Rightarrow> Inr None
                       | Inr (Some q) \<Rightarrow> parseQuoteJSONWithDepth c (Some q) depth))))"
  by (rule findQuoteOfMessage.simps)

section \<open>The depth bound\<close>

text \<open>
  Both functions are total: the \<^theory_text>\<open>termination\<close> proof above shows that every call
  returns, whatever the store holds, because a recursive call is made only below
  \<open>maxDepth\<close> and raises the depth. What a call returns is bounded by the depth left.
\<close>

lemma chain_bound:
  "parseQuoteJSONWithDepth c jqte depth = Inr (Some q)
     \<Longrightarrow> int (chainLength q) \<le> maxDepth - depth"
  "findQuoteOfMessage c sentAt depth' = Inr (Some q')
     \<Longrightarrow> int (chainLength q') \<le> maxDepth - depth'"
proof (induction c jqte depth and c sentAt depth' arbitrary: q and q'
       rule: parseQuoteJSONWithDepth_findQuoteOfMessage.induct)
  case (1 c jqte depth)
  from "1.prems" "1.IH" show ?case
    apply (subst (asm) parseQuoteJSONWithDepth.simps)
    apply (fastforce split: option.splits if_splits sum.splits)
    done
next
  case (2 c sentAt depth)
  from "2.prems" "2.IH" show ?case
    apply (subst (asm) findQuoteOfMessage.simps)
    apply (fastforce split: option.splits if_splits sum.splits)
    done
qed

text \<open>
  C1. Quote resolution terminates for every raw quote and every store, cyclic ones too
  (the functions are total), and it is bounded by depth: called with the depth counter at
  10 or more it returns absent without recursing, a quote resolved at depth \<open>d\<close> heads a
  chain of at most \<open>10 - d\<close> quotes, and so the chain that \<open>parseQuoteJSON\<close> returns never
  has more than 10 links.
\<close>

theorem quote_chain_bounded:
  "(maxDepth \<le> depth \<longrightarrow> parseQuoteJSONWithDepth c jqte depth = Inr None) \<and>
   (parseQuoteJSONWithDepth c jqte depth = Inr (Some q)
      \<longrightarrow> int (chainLength q) \<le> 10 - depth) \<and>
   (parseQuoteJSON c jqte = Inr (Some q') \<longrightarrow> chainLength q' \<le> 10)"
  using chain_bound(1) [of c jqte depth q] chain_bound(1) [of c jqte 0 q']
  by (auto simp: parse_at_maxDepth parseQuoteJSON_def maxDepth_def)

lemma cyclic_store_resolves:
  "\<exists>q. parseQuoteJSON cyclicStore (Some exampleQuote) = Inr (Some q) \<and> chainLength q = 10"
  by (simp add: resolve_eval cyclicStore_def emptyStore_def exampleQuote_def)

theorem quote_chain_bounded_witness:
  "maxDepth \<le> 10 \<and>
   parseQuoteJSONWithDepth cyclicStore (Some exampleQuote) 10 = Inr None \<and>
   (\<exists>q. parseQuoteJSONWithDepth cyclicStore (Some exampleQuote) 0 = Inr (Some q) \<and>
      parseQuoteJSON cyclicStore (Some exampleQuote) = Inr (Some q) \<and>
      int (chainLength q) \<le> 10 - 0 \<and> chainLength q \<le> 10)"
proof -
  obtain q where q: "parseQuoteJSON cyclicStore (Some exampleQuote) = Inr (Some q)"
    using cyclic_store_resolves by blast
  then have q0: "parseQuoteJSONWithDepth cyclicStore (Some exampleQuote) 0 = Inr (Some q)"
    by (simp add: parseQuoteJSON_def)
  have d: "maxDepth \<le> 10" by (simp add: maxDepth_def)
  from quote_chain_bounded [of 10 cyclicStore "Some exampleQuote" q q]
    quote_chain_bounded [of 0 cyclicStore "Some exampleQuote" q q] q q0 d
  show ?thesis by simp
qed

section \<open>The author of a quote\<close>

text \<open>
  C2, as the code has it. A raw quote whose three author fields are empty, resolved below
  the depth bound, fails with "quote without author" when its ID is absent or parses as a
  64-bit integer, whatever its other fields hold; the ID is read before the author, so
  with an ID that does not parse the failure is "cannot parse quote ID" instead.
\<close>

theorem quote_without_author:
  assumes "qj_AuthorACI j = []" and "qj_AuthorUUID j = []" and "qj_Author j = []"
    and "depth < maxDepth"
  shows "parseQuoteJSONWithDepth c (Some j) depth =
     (case qj_ID j of
        None \<Rightarrow> Inl QuoteWithoutAuthor
      | Some n \<Rightarrow>
          (case Int64 n of
             Inl err \<Rightarrow> Inl (CannotParseQuoteID err)
           | Inr t \<Rightarrow> Inl QuoteWithoutAuthor))"
  using assms
  by (simp add: parse_below_maxDepth quoteTimeSent_def quoteRecipient_def
      split: option.splits sum.splits)

theorem quote_without_author_witness:
  "qj_AuthorACI noAuthorQuote = [] \<and> qj_AuthorUUID noAuthorQuote = [] \<and>
   qj_Author noAuthorQuote = [] \<and> (0::int) < maxDepth \<and>
   Int64 ''500'' = Inr 500 \<and>
   parseQuoteJSONWithDepth emptyStore (Some noAuthorQuote) 0 = Inl QuoteWithoutAuthor"
  using quote_without_author [of noAuthorQuote 0 emptyStore]
  by (simp add: noAuthorQuote_def exampleQuote_def maxDepth_def Int64_eval)

text \<open>
  The property as the specification words it, "regardless of its ID", fails on a quote
  without author whose ID is the JSON number \<open>1.5\<close>: the resolution fails, but with the
  ID's parse error.
\<close>

theorem quote_without_author_counterexample:
  "qj_AuthorACI noAuthorBadIDQuote = [] \<and> qj_AuthorUUID noAuthorBadIDQuote = [] \<and>
   qj_Author noAuthorBadIDQuote = [] \<and>
   parseQuoteJSON emptyStore (Some noAuthorBadIDQuote) = Inl (CannotParseQuoteID ErrSyntax) \<and>
   parseQuoteJSON emptyStore (Some noAuthorBadIDQuote) \<noteq> Inl QuoteWithoutAuthor"
  by (simp add: resolve_eval noAuthorBadIDQuote_def exampleQuote_def emptyStore_def)

section \<open>The chain step\<close>

text \<open>
  C3. A quote whose timestamp is positive, once its author and mentions are resolved,
  makes one chain step and succeeds whatever the step yields: the nested quote is what
  \<open>findQuoteOfMessage\<close> returns at that timestamp and \<open>depth + 1\<close>, and absent when it
  fails. The step itself fails on a database error, returns absent on a lookup miss, an
  empty payload, a payload that does not decode or holds no quote, and otherwise is the
  resolution of the embedded quote at \<open>depth + 1\<close>.
\<close>

theorem chain_step_nonfatal:
  assumes "depth < maxDepth" and "quoteTimeSent j = Inr ts" and "0 < ts"
    and "quoteRecipient c j = Inr rpt" and "parseMentionJSON c (qj_Mentions j) = Inr ms"
  shows "parseQuoteJSONWithDepth c (Some j) depth =
       Inr (Some (Quote rpt ts \<lparr>mb_Text = qj_Text j, mb_Mentions = ms\<rparr>
         (quoteAttachments (LongTextType c) (qj_Attachments j) [])
         (case findQuoteOfMessage c ts (depth + 1) of
            Inl err \<Rightarrow> None
          | Inr quotedQuote \<Rightarrow> quotedQuote))) \<and>
     (db_Prepare c findQuery \<noteq> None \<or> stmt_BindInt64 c ts \<noteq> None
        \<longrightarrow> isl (findQuoteOfMessage c ts (depth + 1))) \<and>
     (db_Prepare c findQuery = None \<and> stmt_BindInt64 c ts = None \<longrightarrow>
        (stmt_Step c ts = None \<longrightarrow> findQuoteOfMessage c ts (depth + 1) = Inr None) \<and>
        (\<forall>jsonStr. stmt_Step c ts = Some jsonStr \<longrightarrow>
           (jsonStr = [] \<or> isl (jsonUnmarshal c jsonStr) \<or> jsonUnmarshal c jsonStr = Inr None
              \<longrightarrow> findQuoteOfMessage c ts (depth + 1) = Inr None) \<and>
           (\<forall>jq. jsonStr \<noteq> [] \<and> jsonUnmarshal c jsonStr = Inr (Some jq) \<longrightarrow>
              findQuoteOfMessage c ts (depth + 1)
                = parseQuoteJSONWithDepth c (Some jq) (depth + 1))))"
proof (intro conjI)
  show "parseQuoteJSONWithDepth c (Some j) depth =
       Inr (Some (Quote rpt ts \<lparr>mb_Text = qj_Text j, mb_Mentions = ms\<rparr>
         (quoteAttachments (LongTextType c) (qj_Attachments j) [])
         (case findQuoteOfMessage c ts (depth + 1) of
            Inl err \<Rightarrow> None
          | Inr quotedQuote \<Rightarrow> quotedQuote)))"
    using assms by (simp add: parse_below_maxDepth)
next
  show "db_Prepare c findQuery \<noteq> None \<or> stmt_BindInt64 c ts \<noteq> None
        \<longrightarrow> isl (findQuoteOfMessage c ts (depth + 1))"
    by (subst find_unfold) (auto split: option.splits)
next
  show "db_Prepare c findQuery = None \<and> stmt_BindInt64 c ts = None \<longrightarrow>
        (stmt_Step c ts = None \<longrightarrow> findQuoteOfMessage c ts (depth + 1) = Inr None) \<and>
        (\<forall>jsonStr. stmt_Step c ts = Some jsonStr \<longrightarrow>
           (jsonStr = [] \<or> isl (jsonUnmarshal c jsonStr) \<or> jsonUnmarshal c jsonStr = Inr None
              \<longrightarrow> findQuoteOfMessage c ts (depth + 1) = Inr None) \<and>
           (\<forall>jq. jsonStr \<noteq> [] \<and> jsonUnmarshal c jsonStr = Inr (Some jq) \<longrightarrow>
              findQuoteOfMessage c ts (depth + 1)
                = parseQuoteJSONWithDepth c (Some jq) (depth + 1)))"
    by (subst (1 2 3) find_unfold) (auto split: option.splits sum.splits simp: isl_def)
qed

text \<open>The specification's example: the store has no message at 500.\<close>

theorem chain_step_nonfatal_witness:
  "(0::int) < maxDepth \<and> quoteTimeSent exampleQuote = Inr 500 \<and> (0::int) < 500 \<and>
   quoteRecipient emptyStore exampleQuote = Inr (Some ''X'') \<and>
   parseMentionJSON emptyStore (qj_Mentions exampleQuote) = Inr [] \<and>
   stmt_Step emptyStore 500 = None \<and>
   parseQuoteJSONWithDepth emptyStore (Some exampleQuote) 0 =
     Inr (Some (Quote (Some ''X'') 500 \<lparr>mb_Text = ''orig'', mb_Mentions = []\<rparr> [] None)) \<and>
   quoteRecipient cyclicStore exampleQuote = Inr (Some ''X'') \<and>
   parseMentionJSON cyclicStore (qj_Mentions exampleQuote) = Inr [] \<and>
   stmt_Step cyclicStore 500 = Some ''A'' \<and>
   jsonUnmarshal cyclicStore ''A'' = Inr (Some exampleQuote) \<and>
   findQuoteOfMessage cyclicStore 500 (9 + 1)
     = parseQuoteJSONWithDepth cyclicStore (Some exampleQuote) (9 + 1) \<and>
   parseQuoteJSONWithDepth cyclicStore (Some exampleQuote) 9 =
     Inr (Some (Quote (Some ''X'') 500 \<lparr>mb_Text = ''orig'', mb_Mentions = []\<rparr> [] None))"
proof -
  have h1: "(0::int) < maxDepth" and h1': "(9::int) < maxDepth" by (simp_all add: maxDepth_def)
  have h2: "quoteTimeSent exampleQuote = Inr 500"
    by (simp add: quoteTimeSent_def exampleQuote_def Int64_eval)
  have h3: "(0::int) < 500" by simp
  have h4: "quoteRecipient emptyStore exampleQuote = Inr (Some ''X'')"
    and h4': "quoteRecipient cyclicStore exampleQuote = Inr (Some ''X'')"
    by (simp_all add: quoteRecipient_def exampleQuote_def emptyStore_def cyclicStore_def)
  have h5: "parseMentionJSON emptyStore (qj_Mentions exampleQuote) = Inr []"
    and h5': "parseMentionJSON cyclicStore (qj_Mentions exampleQuote) = Inr []"
    by (simp_all add: exampleQuote_def emptyStore_def cyclicStore_def)
  have h6: "stmt_Step emptyStore 500 = None" "db_Prepare emptyStore findQuery = None"
    "stmt_BindInt64 emptyStore 500 = None"
    by (simp_all add: emptyStore_def)
  have h6': "stmt_Step cyclicStore 500 = Some ''A''" "db_Prepare cyclicStore findQuery = None"
    "stmt_BindInt64 cyclicStore 500 = None"
    "jsonUnmarshal cyclicStore ''A'' = Inr (Some exampleQuote)"
    "LongTextType cyclicStore = ''text/x-signal-plain''"
    by (simp_all add: emptyStore_def cyclicStore_def)
  have h7: "qj_Text exampleQuote = ''orig''" "qj_Attachments exampleQuote = []"
    by (simp_all add: exampleQuote_def)
  from chain_step_nonfatal [OF h1 h2 h3 h4 h5] h6 h7
  have a: "parseQuoteJSONWithDepth emptyStore (Some exampleQuote) 0 =
     Inr (Some (Quote (Some ''X'') 500 \<lparr>mb_Text = ''orig'', mb_Mentions = []\<rparr> [] None))"
    by simp
  from chain_step_nonfatal [OF h1' h2 h3 h4' h5'] h6'
  have b: "findQuoteOfMessage cyclicStore 500 (9 + 1)
     = parseQuoteJSONWithDepth cyclicStore (Some exampleQuote) (9 + 1)"
    by simp
  have c: "parseQuoteJSONWithDepth cyclicStore (Some exampleQuote) (9 + 1) = Inr None"
    by (simp add: parse_at_maxDepth maxDepth_def)
  from chain_step_nonfatal [OF h1' h2 h3 h4' h5'] h6' h7 b c
  have d: "parseQuoteJSONWithDepth cyclicStore (Some exampleQuote) 9 =
     Inr (Some (Quote (Some ''X'') 500 \<lparr>mb_Text = ''orig'', mb_Mentions = []\<rparr> [] None))"
    by simp
  from h1 h2 h4 h5 h6 a h4' h5' h6' b d show ?thesis by simp
qed

section \<open>The timestamp of a quote\<close>

text \<open>\<open>Int64\<close> accepts exactly the decimal integer literals within 64 bits, with their
  value.\<close>

lemma foldl_dec_mono: "n \<le> foldl (\<lambda>n c. n * 10 + digitVal c) n cs"
proof (induction cs arbitrary: n)
  case Nil
  show ?case by simp
next
  case (Cons c cs)
  have "n \<le> n * 10 + digitVal c" by simp
  also have "\<dots> \<le> foldl (\<lambda>n c. n * 10 + digitVal c) (n * 10 + digitVal c) cs"
    by (rule Cons.IH)
  finally show ?case by simp
qed

lemma parseUintLoop_digits:
  "list_all isDigit cs \<Longrightarrow> n \<le> maxUint64 \<Longrightarrow>
   parseUintLoop cs n =
     (if foldl (\<lambda>n c. n * 10 + digitVal c) n cs \<le> maxUint64
      then Inr (foldl (\<lambda>n c. n * 10 + digitVal c) n cs) else Inl ErrRange)"
proof (induction cs arbitrary: n)
  case Nil
  then show ?case by simp
next
  case (Cons c cs)
  let ?n' = "n * 10 + digitVal c"
  have d: "isDigit c" and ds: "list_all isDigit cs" using Cons.prems(1) by simp_all
  have m: "?n' \<le> foldl (\<lambda>n c. n * 10 + digitVal c) ?n' cs" by (rule foldl_dec_mono)
  show ?case
  proof (cases "maxUint64 div 10 + 1 \<le> n")
    case True
    then have "maxUint64 < ?n'" by (simp add: maxUint64_def)
    with m True d show ?thesis by simp
  next
    case False
    show ?thesis
    proof (cases "maxUint64 < ?n'")
      case True
      with m False d show ?thesis by simp
    next
      case b: False
      then have "?n' \<le> maxUint64" by simp
      from Cons.IH [OF ds this] False b d show ?thesis by simp
    qed
  qed
qed

lemma parseUintLoop_nondigit:
  "\<not> list_all isDigit cs \<Longrightarrow> \<exists>e. parseUintLoop cs n = Inl e"
  by (induction cs arbitrary: n) auto

lemma Int64_Some: "integerLiteral s = Some t \<Longrightarrow> Int64 s = Inr t"
proof (cases s)
  case Nil
  then show "integerLiteral s = Some t \<Longrightarrow> Int64 s = Inr t" by (simp add: integerLiteral_def)
next
  case (Cons c cs)
  assume a: "integerLiteral s = Some t"
  let ?ds = "if c = CHR ''+'' \<or> c = CHR ''-'' then cs else s"
  let ?v = "if c = CHR ''-'' then - int (decimalValue ?ds) else int (decimalValue ?ds)"
  from a Cons have ne: "?ds \<noteq> []" and dg: "list_all isDigit ?ds"
    and lo: "- (2 ^ 63) \<le> ?v" and hi: "?v < 2 ^ 63" and t: "t = ?v"
    by (auto simp: integerLiteral_def Let_def split: if_splits)
  have le: "decimalValue ?ds \<le> maxUint64"
    using lo hi by (auto simp: maxUint64_def split: if_splits)
  have "parseUintLoop ?ds 0 = Inr (decimalValue ?ds)"
    using parseUintLoop_digits [OF dg, of 0] le by (simp add: decimalValue_def)
  then have pu: "ParseUint ?ds = Inr (decimalValue ?ds)"
    using ne by (simp add: ParseUint_def)
  show "Int64 s = Inr t"
    using pu lo hi t Cons by (auto simp: Int64_def Let_def split: if_splits)
qed

lemma Int64_None: "integerLiteral s = None \<Longrightarrow> \<exists>e. Int64 s = Inl e"
proof (cases s)
  case Nil
  then show ?thesis by (simp add: Int64_def)
next
  case (Cons c cs)
  assume a: "integerLiteral s = None"
  let ?ds = "if c = CHR ''+'' \<or> c = CHR ''-'' then cs else s"
  let ?v = "if c = CHR ''-'' then - int (decimalValue ?ds) else int (decimalValue ?ds)"
  from a Cons
  have bad: "?ds = [] \<or> \<not> list_all isDigit ?ds \<or> \<not> (- (2 ^ 63) \<le> ?v \<and> ?v < 2 ^ 63)"
    by (auto simp: integerLiteral_def Let_def split: if_splits)
  have I: "Int64 s = (case ParseUint ?ds of
             Inl e \<Rightarrow> Inl e
           | Inr un \<Rightarrow>
               if \<not> c = CHR ''-'' \<and> un \<ge> 2 ^ 63 then Inl ErrRange
               else if c = CHR ''-'' \<and> un > 2 ^ 63 then Inl ErrRange
               else Inr (if c = CHR ''-'' then - int un else int un))"
    using Cons by (simp add: Int64_def Let_def)
  show ?thesis
  proof (cases "?ds = [] \<or> \<not> list_all isDigit ?ds")
    case True
    then have "\<exists>e. ParseUint ?ds = Inl e"
      using parseUintLoop_nondigit [of ?ds 0] by (auto simp: ParseUint_def)
    then show ?thesis using I by auto
  next
    case False
    then have dg: "list_all isDigit ?ds" and ne: "?ds \<noteq> []" by simp_all
    from bad False have rng: "\<not> (- (2 ^ 63) \<le> ?v \<and> ?v < 2 ^ 63)" by blast
    have pu: "ParseUint ?ds =
        (if decimalValue ?ds \<le> maxUint64 then Inr (decimalValue ?ds) else Inl ErrRange)"
      using parseUintLoop_digits [OF dg, of 0] ne
      by (simp add: ParseUint_def decimalValue_def)
    show ?thesis
    proof (cases "decimalValue ?ds \<le> maxUint64")
      case True
      with pu rng I show ?thesis by (auto split: if_splits)
    next
      case False
      with pu I show ?thesis by simp
    qed
  qed
qed

lemmas literal_eval =
  integerLiteral_def decimalValue_def isDigit_def digitVal_def Let_def

lemmas number_eval =
  isValidNumber_def fractionTail_def exponentTail_def isDigit_def Let_def

text \<open>
  C4, as the code has it. Below the depth bound: a quote without ID is no error, its
  timestamp is the sentinel \<open>-1\<close> and it makes no chain step; a present ID that is a
  decimal integer literal within the signed 64-bit range (the \<open>json.Number\<close> holds the
  same literal whether the JSON had a number or a numeric string) becomes the timestamp,
  with the literal's value; every other present ID fails the quote with "cannot parse
  quote ID", whatever its other fields hold, and no resolved quote has a timestamp of
  another origin.
\<close>

theorem quote_id_timestamp:
  assumes "depth < maxDepth"
  shows "(qj_ID j = None \<and> quoteRecipient c j = Inr rpt
            \<and> parseMentionJSON c (qj_Mentions j) = Inr ms \<longrightarrow>
          (\<exists>q. parseQuoteJSONWithDepth c (Some j) depth = Inr (Some q)
             \<and> q_TimeSent q = - 1 \<and> q_QuotedQuote q = None)) \<and>
         (qj_ID j = Some n \<and> integerLiteral n = Some t \<and> quoteRecipient c j = Inr rpt
            \<and> parseMentionJSON c (qj_Mentions j) = Inr ms \<longrightarrow>
          (\<exists>q. parseQuoteJSONWithDepth c (Some j) depth = Inr (Some q) \<and> q_TimeSent q = t)) \<and>
         (qj_ID j = Some n \<and> integerLiteral n = None \<longrightarrow>
          (\<exists>err. parseQuoteJSONWithDepth c (Some j) depth = Inl (CannotParseQuoteID err))) \<and>
         (parseQuoteJSONWithDepth c (Some j) depth = Inr (Some q') \<longrightarrow>
          (case qj_ID j of
             None \<Rightarrow> q_TimeSent q' = - 1
           | Some n' \<Rightarrow> integerLiteral n' = Some (q_TimeSent q')))"
proof (intro conjI impI)
  assume "qj_ID j = None \<and> quoteRecipient c j = Inr rpt
            \<and> parseMentionJSON c (qj_Mentions j) = Inr ms"
  then show "\<exists>q. parseQuoteJSONWithDepth c (Some j) depth = Inr (Some q)
             \<and> q_TimeSent q = - 1 \<and> q_QuotedQuote q = None"
    using assms by (simp add: parse_below_maxDepth quoteTimeSent_def)
next
  assume a: "qj_ID j = Some n \<and> integerLiteral n = Some t \<and> quoteRecipient c j = Inr rpt
            \<and> parseMentionJSON c (qj_Mentions j) = Inr ms"
  then have "Int64 n = Inr t" by (simp add: Int64_Some)
  with a show "\<exists>q. parseQuoteJSONWithDepth c (Some j) depth = Inr (Some q) \<and> q_TimeSent q = t"
    using assms by (simp add: parse_below_maxDepth quoteTimeSent_def)
next
  assume a: "qj_ID j = Some n \<and> integerLiteral n = None"
  then obtain e where "Int64 n = Inl e" using Int64_None by blast
  with a show "\<exists>err. parseQuoteJSONWithDepth c (Some j) depth = Inl (CannotParseQuoteID err)"
    using assms by (simp add: parse_below_maxDepth quoteTimeSent_def)
next
  assume s: "parseQuoteJSONWithDepth c (Some j) depth = Inr (Some q')"
  show "case qj_ID j of
          None \<Rightarrow> q_TimeSent q' = - 1
        | Some n' \<Rightarrow> integerLiteral n' = Some (q_TimeSent q')"
  proof (cases "qj_ID j")
    case None
    with s assms show ?thesis
      by (auto simp: parse_below_maxDepth quoteTimeSent_def split: sum.splits)
  next
    case (Some n')
    with s assms have i: "Int64 n' = Inr (q_TimeSent q')"
      by (auto simp: parse_below_maxDepth quoteTimeSent_def split: sum.splits)
    have "integerLiteral n' = Some (q_TimeSent q')"
    proof (cases "integerLiteral n'")
      case None
      then show ?thesis using Int64_None [of n'] i by auto
    next
      case (Some t')
      then show ?thesis using Int64_Some [of n' t'] i by simp
    qed
    with Some show ?thesis by simp
  qed
qed

theorem quote_id_timestamp_witness:
  "(0::int) < maxDepth \<and>
   qj_ID noIDQuote = None \<and>
   (\<exists>q. parseQuoteJSONWithDepth emptyStore (Some noIDQuote) 0 = Inr (Some q)
      \<and> q_TimeSent q = - 1 \<and> q_QuotedQuote q = None) \<and>
   qj_ID exampleQuote = Some ''500'' \<and> integerLiteral ''500'' = Some 500 \<and>
   (\<exists>q. parseQuoteJSONWithDepth emptyStore (Some exampleQuote) 0 = Inr (Some q)
      \<and> q_TimeSent q = 500) \<and>
   qj_ID badIDQuote = Some ''1.5'' \<and> integerLiteral ''1.5'' = None \<and>
   (\<exists>err. parseQuoteJSONWithDepth emptyStore (Some badIDQuote) 0 = Inl (CannotParseQuoteID err))"
proof -
  have d: "(0::int) < maxDepth" by (simp add: maxDepth_def)
  have e1: "integerLiteral ''500'' = Some 500" and e2: "integerLiteral ''1.5'' = None"
    by (simp_all add: literal_eval)
  have r: "quoteRecipient emptyStore noIDQuote = Inr (Some ''X'')"
    "quoteRecipient emptyStore exampleQuote = Inr (Some ''X'')"
    by (simp_all add: quoteRecipient_def noIDQuote_def exampleQuote_def emptyStore_def)
  have m: "parseMentionJSON emptyStore (qj_Mentions noIDQuote) = Inr []"
    "parseMentionJSON emptyStore (qj_Mentions exampleQuote) = Inr []"
    by (simp_all add: noIDQuote_def exampleQuote_def emptyStore_def)
  have i: "qj_ID noIDQuote = None" "qj_ID exampleQuote = Some ''500''"
    "qj_ID badIDQuote = Some ''1.5''"
    by (simp_all add: noIDQuote_def badIDQuote_def exampleQuote_def)
  from quote_id_timestamp [OF d, of noIDQuote emptyStore "Some ''X''" "[]"] i r m
  have a: "\<exists>q. parseQuoteJSONWithDepth emptyStore (Some noIDQuote) 0 = Inr (Some q)
      \<and> q_TimeSent q = - 1 \<and> q_QuotedQuote q = None"
    by blast
  from quote_id_timestamp [OF d, of exampleQuote emptyStore "Some ''X''" "[]" "''500''" 500] i r m e1
  have b: "\<exists>q. parseQuoteJSONWithDepth emptyStore (Some exampleQuote) 0 = Inr (Some q)
      \<and> q_TimeSent q = 500"
    by blast
  from quote_id_timestamp [OF d, of badIDQuote emptyStore _ _ "''1.5''"] i e2
  have c: "\<exists>err. parseQuoteJSONWithDepth emptyStore (Some badIDQuote) 0
             = Inl (CannotParseQuoteID err)"
    by blast
  from d i e1 e2 a b c show ?thesis by blast
qed

text \<open>
  The property as the specification words it, "a present ID that parses as a number
  becomes the timestamp", fails on the JSON numbers \<open>1.5\<close> and \<open>9223372036854775808\<close>:
  each is a number, the author of the quote is known, and the resolution fails with the
  ID's parse error.
\<close>

theorem quote_id_timestamp_counterexample:
  "isValidNumber ''1.5'' \<and> qj_ID badIDQuote = Some ''1.5'' \<and>
   quoteRecipient emptyStore badIDQuote = Inr (Some ''X'') \<and>
   parseQuoteJSON emptyStore (Some badIDQuote) = Inl (CannotParseQuoteID ErrSyntax) \<and>
   isValidNumber ''9223372036854775808'' \<and> qj_ID hugeIDQuote = Some ''9223372036854775808'' \<and>
   quoteRecipient emptyStore hugeIDQuote = Inr (Some ''X'') \<and>
   parseQuoteJSON emptyStore (Some hugeIDQuote) = Inl (CannotParseQuoteID ErrRange)"
  by (simp add: resolve_eval number_eval badIDQuote_def hugeIDQuote_def exampleQuote_def
      emptyStore_def)

section \<open>The author of a resolved quote\<close>

lemma chainLength_quoteChain: "chainLength q = length (quoteChain q)"
  by (induction q rule: chainLength.induct) (simp split: option.splits)




lemma convertQuoteSome_chain:
  "jsonQuoteChain (convertQuoteSome x q) = map (convertQuoteSome x) (quoteChain q)"
  by (induction x q rule: convertQuoteSome.induct) (simp split: option.splits)

lemma convertQuoteAttachments_map:
  "convertQuoteAttachments atts acc =
     acc @ map (\<lambda>att. \<lparr>ja_FileName = qa_FileName att, ja_ContentType = qa_ContentType att,
                       ja_Size = 0\<rparr>) atts"
  by (induction atts arbitrary: acc) simp_all

lemma convertQuoteSome_fields:
  "jq_From (convertQuoteSome x q) = DetailedDisplayName x (q_Recipient q)"
  "jq_Sent (convertQuoteSome x q) = (if q_TimeSent q > 0 then formatTime x (q_TimeSent q) else [])"
  "jq_Body (convertQuoteSome x q) = mb_Text (q_Body q)"
  "jq_Attachments (convertQuoteSome x q) =
     map (\<lambda>att. \<lparr>ja_FileName = qa_FileName att, ja_ContentType = qa_ContentType att,
                 ja_Size = 0\<rparr>) (q_Attachments q)"
  by (cases q; simp add: convertQuoteAttachments_map)+




section \<open>The loops of the exporter\<close>

lemma editsLoop_length: "length (editsLoop x n i es acc) = length acc + length es"
  by (induction es arbitrary: i acc) simp_all

lemma messagesLoop_map:
  "messagesLoop x selfName msgs acc = acc @ map (messageRecord x selfName) msgs"
  by (induction msgs arbitrary: acc) simp_all

lemma groupV2ChangeLoop_map:
  "groupV2ChangeLoop x gcs acc = acc @ map (groupV2ChangeRecord x) gcs"
  by (induction gcs arbitrary: acc) simp_all

lemma exportModel_messages:
  "exportModel x ctx msgs = Some ex
     \<Longrightarrow> jx_Messages ex = map (messageRecord x (selfNameOf x ctx)) msgs"
  by (cases msgs) (auto simp: exportModel_def messagesLoop_map)

lemma exportModel_message:
  "exportModel x ctx msgs = Some ex \<Longrightarrow> k < length msgs
     \<Longrightarrow> jx_Messages ex ! k = messageRecord x (selfNameOf x ctx) (msgs ! k)"
  by (simp add: exportModel_messages)

lemmas export_eval =
  exportModel_def messageRecord_def selfNameOf_def formatTime_def convertAttachments_def
  convertQuote_def groupV2ChangeRecord_def formatGroupV2ChangeAction_def Let_def

lemmas encode_eval =
  encodeMessage_def encodeGroupV2Change_def encodeEdit_def encodeAttachment_def
  encodeReaction_def omitemptyString_def omitemptyNumber_def omitemptyArray_def
  omitemptyPointer_def

lemma editsLoop_append: "editsLoop x n i es acc = acc @ editsLoop x n i es []"
proof (induction es arbitrary: i acc)
  case Nil
  show ?case by simp
next
  case (Cons e es)
  show ?case
    by (simp add: Cons.IH [of "i + 1" "acc @ _"] Cons.IH [of "i + 1" "[_]"])
qed

lemma editsLoop_nth:
  "k < length es \<Longrightarrow>
   editsLoop x n i es [] ! k =
     \<lparr>je_Version = n - (i + int k),
      je_Sent = formatTime x (ed_TimeEdit (es ! k)),
      je_Body = mb_Text (ed_Body (es ! k)),
      je_Attachments = convertAttachments (ed_Attachments (es ! k)),
      je_Quote = convertQuote x (ed_Quote (es ! k))\<rparr>"
proof (induction es arbitrary: i k)
  case Nil
  then show ?case by simp
next
  case (Cons e es)
  have u: "editsLoop x n i (e # es) [] =
      \<lparr>je_Version = n - i,
       je_Sent = formatTime x (ed_TimeEdit e),
       je_Body = mb_Text (ed_Body e),
       je_Attachments = convertAttachments (ed_Attachments e),
       je_Quote = convertQuote x (ed_Quote e)\<rparr> # editsLoop x n (i + 1) es []"
    using editsLoop_append [of x n "i + 1" es "[_]"] by simp
  show ?case
  proof (cases k)
    case 0
    with u show ?thesis by simp
  next
    case (Suc k')
    with Cons.prems have "k' < length es" by simp
    from Cons.IH [OF this, of "i + 1"] Suc u show ?thesis
      by (simp add: algebra_simps)
  qed
qed

lemma convertAttachmentsLoop_map:
  "convertAttachmentsLoop atts result =
     result @ map (\<lambda>att. \<lparr>ja_FileName = att_FileName att, ja_ContentType = att_ContentType att,
                          ja_Size = att_Size att\<rparr>) atts"
  by (induction atts arbitrary: result) simp_all

lemma convertAttachments_map:
  "convertAttachments atts =
     map (\<lambda>att. \<lparr>ja_FileName = att_FileName att, ja_ContentType = att_ContentType att,
                 ja_Size = att_Size att\<rparr>) atts"
  by (simp add: convertAttachments_def convertAttachmentsLoop_map)

section \<open>Edits\<close>

text \<open>
  C5. A message with \<open>N \<ge> 1\<close> edits is exported with exactly \<open>N\<close> edit records. The
  record at index \<open>i\<close> (from 0, in the order of the edit list) is the record of the edit
  at index \<open>i\<close>, with that edit's time, body text, attachments and quote, and its
  version is \<open>N - i\<close>, emitted as such: the first edit of the list has version \<open>N\<close> and
  the last one has version 1.
\<close>

theorem edit_versions:
  assumes "exportModel x ctx msgs = Some ex" and "k < length msgs"
    and "1 \<le> length (msg_Edits (msgs ! k))"
  shows "length (jm_Edits (jx_Messages ex ! k)) = length (msg_Edits (msgs ! k)) \<and>
     (\<forall>i < length (msg_Edits (msgs ! k)).
        jm_Edits (jx_Messages ex ! k) ! i =
          \<lparr>je_Version = int (length (msg_Edits (msgs ! k))) - int i,
           je_Sent = formatTime x (ed_TimeEdit (msg_Edits (msgs ! k) ! i)),
           je_Body = mb_Text (ed_Body (msg_Edits (msgs ! k) ! i)),
           je_Attachments =
             map (\<lambda>att. \<lparr>ja_FileName = att_FileName att,
                         ja_ContentType = att_ContentType att,
                         ja_Size = att_Size att\<rparr>)
               (ed_Attachments (msg_Edits (msgs ! k) ! i)),
           je_Quote = convertQuote x (ed_Quote (msg_Edits (msgs ! k) ! i))\<rparr> \<and>
        objectField (encodeEdit (jm_Edits (jx_Messages ex ! k) ! i)) ''version''
          = Some (JNumber (int (length (msg_Edits (msgs ! k))) - int i))) \<and>
     je_Version (hd (jm_Edits (jx_Messages ex ! k))) = int (length (msg_Edits (msgs ! k))) \<and>
     je_Version (last (jm_Edits (jx_Messages ex ! k))) = 1"
proof -
  let ?es = "msg_Edits (msgs ! k)"
  let ?n = "int (length ?es)"
  let ?js = "editsLoop x ?n 0 ?es []"
  have js: "jm_Edits (jx_Messages ex ! k) = ?js"
    using assms by (simp add: exportModel_message messageRecord_def)
  have len: "length ?js = length ?es"
    by (simp add: editsLoop_length)
  have nth: "?js ! i =
          \<lparr>je_Version = ?n - int i,
           je_Sent = formatTime x (ed_TimeEdit (?es ! i)),
           je_Body = mb_Text (ed_Body (?es ! i)),
           je_Attachments =
             map (\<lambda>att. \<lparr>ja_FileName = att_FileName att,
                         ja_ContentType = att_ContentType att,
                         ja_Size = att_Size att\<rparr>)
               (ed_Attachments (?es ! i)),
           je_Quote = convertQuote x (ed_Quote (?es ! i))\<rparr>" if "i < length ?es" for i
    using editsLoop_nth [OF that, of x ?n 0] by (simp add: convertAttachments_map)
  have ver: "je_Version (?js ! i) = ?n - int i" if "i < length ?es" for i
    using nth [OF that] by simp
  have fld: "objectField (encodeEdit e) ''version'' = Some (JNumber (je_Version e))" for e
    by (simp add: encodeEdit_def)
  have ne: "?js \<noteq> []"
    using assms(3) len by (metis length_0_conv not_one_le_zero)
  have pos: "0 < length ?es"
    using assms(3) by (cases ?es) simp_all
  have h: "je_Version (hd ?js) = ?n"
    using ne ver [OF pos] by (simp add: hd_conv_nth)
  have "je_Version (last ?js) = je_Version (?js ! (length ?es - 1))"
    using ne len by (simp add: last_conv_nth)
  also have "\<dots> = ?n - int (length ?es - 1)"
    using assms(3) by (intro ver) simp
  also have "\<dots> = 1"
    using assms(3) by simp
  finally have l: "je_Version (last ?js) = 1" .
  show ?thesis
    unfolding js using len nth ver h l by (simp add: fld)
qed

theorem edit_versions_witness:
  "(\<exists>ex. exportModel stubExtern emptyStore [outgoingMessage, editedMessage] = Some ex \<and>
      (1::nat) < length [outgoingMessage, editedMessage] \<and>
      1 \<le> length (msg_Edits ([outgoingMessage, editedMessage] ! 1)) \<and>
      map (\<lambda>e. mb_Text (ed_Body e)) (msg_Edits ([outgoingMessage, editedMessage] ! 1))
        = [''c'', ''b'', ''a''] \<and>
      length (jm_Edits (jx_Messages ex ! 1)) = 3 \<and>
      je_Version (jm_Edits (jx_Messages ex ! 1) ! 0) = 3 \<and>
      je_Body (jm_Edits (jx_Messages ex ! 1) ! 0) = ''c'' \<and>
      je_Version (jm_Edits (jx_Messages ex ! 1) ! 1) = 2 \<and>
      je_Body (jm_Edits (jx_Messages ex ! 1) ! 1) = ''b'' \<and>
      je_Version (jm_Edits (jx_Messages ex ! 1) ! 2) = 1 \<and>
      je_Body (jm_Edits (jx_Messages ex ! 1) ! 2) = ''a'' \<and>
      je_Version (last (jm_Edits (jx_Messages ex ! 1))) = 1)"
proof -
  obtain ex where ex: "exportModel stubExtern emptyStore [outgoingMessage, editedMessage] = Some ex"
    by (simp add: exportModel_def)
  have k: "(1::nat) < length [outgoingMessage, editedMessage]" by simp
  have es: "msg_Edits editedMessage
              = [exampleEdit 1003 ''c'', exampleEdit 1002 ''b'', exampleEdit 1001 ''a'']"
    by (simp add: editedMessage_def)
  have n1: "1 \<le> length (msg_Edits ([outgoingMessage, editedMessage] ! 1))"
    by (simp add: es)
  have b: "map (\<lambda>e. mb_Text (ed_Body e)) (msg_Edits ([outgoingMessage, editedMessage] ! 1))
        = [''c'', ''b'', ''a'']"
    by (simp add: es exampleEdit_def)
  let ?js = "jm_Edits (jx_Messages ex ! 1)"
  from edit_versions [OF ex k n1]
  have l: "length ?js = 3"
    and v: "\<And>i. i < 3 \<Longrightarrow>
              je_Version (?js ! i) = 3 - int i \<and>
              je_Body (?js ! i)
                = mb_Text (ed_Body ([exampleEdit 1003 ''c'', exampleEdit 1002 ''b'',
                                       exampleEdit 1001 ''a''] ! i))"
    and e: "je_Version (last ?js) = 1"
    by (simp_all add: es)
  from v [of 0] v [of 1] v [of 2] l e ex k n1 b show ?thesis
    by (simp add: exampleEdit_def)
qed

section \<open>Body and quote of an edited message\<close>

lemma encodeMessage_body:
  "objectField (encodeMessage m) ''body''
     = (if jm_Body m = [] then None else Some (JString (jm_Body m)))"
  by (simp add: encode_eval split: option.splits)

lemma encodeMessage_quote:
  "objectField (encodeMessage m) ''quote'' = map_option encodeQuote (jm_Quote m)"
  by (simp add: encode_eval split: option.splits)

lemma encodeQuote_from:
  "objectField (encodeQuote jq) ''from'' = Some (JString (jq_From jq))"
  by (cases jq) simp

lemma encodeQuote_body:
  "objectField (encodeQuote jq) ''body''
     = (if jq_Body jq = [] then None else Some (JString (jq_Body jq)))"
  by (cases jq) (simp add: omitemptyString_def omitemptyArray_def omitemptyPointer_def
      split: option.splits)

text \<open>
  C6. In the export model a message with edits has an empty body and no quote, and
  neither field is emitted, whatever body and quote the message has. A message without
  edits carries its own body text, emitted unless it is empty, and its own quote: no
  quote when it has none, and otherwise a quote that is emitted and that holds, for the
  quote and for every nested quote on its chain, the display name of that quote's author,
  its time when positive, its body text and its attachments.
\<close>

theorem body_and_quote_only_without_edits:
  assumes "exportModel x ctx msgs = Some ex" and "k < length msgs"
  shows "(msg_Edits (msgs ! k) \<noteq> [] \<longrightarrow>
            jm_Body (jx_Messages ex ! k) = [] \<and> jm_Quote (jx_Messages ex ! k) = None \<and>
            objectField (encodeMessage (jx_Messages ex ! k)) ''body'' = None \<and>
            objectField (encodeMessage (jx_Messages ex ! k)) ''quote'' = None) \<and>
         (msg_Edits (msgs ! k) = [] \<longrightarrow>
            jm_Body (jx_Messages ex ! k) = mb_Text (msg_Body (msgs ! k)) \<and>
            objectField (encodeMessage (jx_Messages ex ! k)) ''body''
              = (if mb_Text (msg_Body (msgs ! k)) = [] then None
                 else Some (JString (mb_Text (msg_Body (msgs ! k))))) \<and>
            (msg_Quote (msgs ! k) = None \<longrightarrow>
               jm_Quote (jx_Messages ex ! k) = None \<and>
               objectField (encodeMessage (jx_Messages ex ! k)) ''quote'' = None) \<and>
            (\<forall>q. msg_Quote (msgs ! k) = Some q \<longrightarrow>
               (\<exists>jq. jm_Quote (jx_Messages ex ! k) = Some jq \<and>
                  objectField (encodeMessage (jx_Messages ex ! k)) ''quote''
                    = Some (encodeQuote jq) \<and>
                  objectField (encodeQuote jq) ''from''
                    = Some (JString (DetailedDisplayName x (q_Recipient q))) \<and>
                  objectField (encodeQuote jq) ''body''
                    = (if mb_Text (q_Body q) = [] then None
                       else Some (JString (mb_Text (q_Body q)))) \<and>
                  map jq_From (jsonQuoteChain jq)
                    = map (\<lambda>p. DetailedDisplayName x (q_Recipient p)) (quoteChain q) \<and>
                  map jq_Sent (jsonQuoteChain jq)
                    = map (\<lambda>p. if q_TimeSent p > 0 then formatTime x (q_TimeSent p) else [])
                        (quoteChain q) \<and>
                  map jq_Body (jsonQuoteChain jq)
                    = map (\<lambda>p. mb_Text (q_Body p)) (quoteChain q) \<and>
                  map jq_Attachments (jsonQuoteChain jq)
                    = map (\<lambda>p. map (\<lambda>att. \<lparr>ja_FileName = qa_FileName att,
                                             ja_ContentType = qa_ContentType att,
                                             ja_Size = 0\<rparr>) (q_Attachments p))
                        (quoteChain q))))"
proof -
  let ?m = "msgs ! k"
  let ?jm = "jx_Messages ex ! k"
  have jm: "?jm = messageRecord x (selfNameOf x ctx) ?m"
    using assms by (rule exportModel_message)
  have b: "jm_Body ?jm = (if msg_Edits ?m = [] then mb_Text (msg_Body ?m) else [])"
    and q: "jm_Quote ?jm = (if msg_Edits ?m = [] then convertQuote x (msg_Quote ?m) else None)"
    by (simp_all add: jm messageRecord_def)
  have with_edits: "jm_Body ?jm = [] \<and> jm_Quote ?jm = None \<and>
      objectField (encodeMessage ?jm) ''body'' = None \<and>
      objectField (encodeMessage ?jm) ''quote'' = None" if "msg_Edits ?m \<noteq> []"
    using that by (simp add: b q encodeMessage_body encodeMessage_quote)
  have body: "jm_Body ?jm = mb_Text (msg_Body ?m) \<and>
      objectField (encodeMessage ?jm) ''body''
        = (if mb_Text (msg_Body ?m) = [] then None else Some (JString (mb_Text (msg_Body ?m))))"
    if "msg_Edits ?m = []"
    using that by (simp add: b encodeMessage_body)
  have none: "jm_Quote ?jm = None \<and> objectField (encodeMessage ?jm) ''quote'' = None"
    if "msg_Edits ?m = []" and "msg_Quote ?m = None"
    using that by (simp add: q encodeMessage_quote convertQuote_def)
  have some: "\<exists>jq. jm_Quote ?jm = Some jq \<and>
      objectField (encodeMessage ?jm) ''quote'' = Some (encodeQuote jq) \<and>
      objectField (encodeQuote jq) ''from''
        = Some (JString (DetailedDisplayName x (q_Recipient qte))) \<and>
      objectField (encodeQuote jq) ''body''
        = (if mb_Text (q_Body qte) = [] then None else Some (JString (mb_Text (q_Body qte)))) \<and>
      map jq_From (jsonQuoteChain jq)
        = map (\<lambda>p. DetailedDisplayName x (q_Recipient p)) (quoteChain qte) \<and>
      map jq_Sent (jsonQuoteChain jq)
        = map (\<lambda>p. if q_TimeSent p > 0 then formatTime x (q_TimeSent p) else [])
            (quoteChain qte) \<and>
      map jq_Body (jsonQuoteChain jq) = map (\<lambda>p. mb_Text (q_Body p)) (quoteChain qte) \<and>
      map jq_Attachments (jsonQuoteChain jq)
        = map (\<lambda>p. map (\<lambda>att. \<lparr>ja_FileName = qa_FileName att,
                                 ja_ContentType = qa_ContentType att,
                                 ja_Size = 0\<rparr>) (q_Attachments p))
            (quoteChain qte)"
    if "msg_Edits ?m = []" and "msg_Quote ?m = Some qte" for qte
  proof -
    have j: "jm_Quote ?jm = Some (convertQuoteSome x qte)"
      using that by (simp add: q convertQuote_def)
    then have e: "objectField (encodeMessage ?jm) ''quote''
                    = Some (encodeQuote (convertQuoteSome x qte))"
      by (simp add: encodeMessage_quote)
    show ?thesis
      using j e
      by (simp add: encodeQuote_from encodeQuote_body convertQuoteSome_fields
          convertQuoteSome_chain comp_def)
  qed
  from with_edits body none some show ?thesis by blast
qed

theorem body_and_quote_only_without_edits_witness:
  "(\<exists>ex. exportModel stubExtern emptyStore [quotingMessage, editedQuotingMessage] = Some ex \<and>
      msg_Edits ([quotingMessage, editedQuotingMessage] ! 0) = [] \<and>
      msg_Quote ([quotingMessage, editedQuotingMessage] ! 0) = Some exampleResolvedQuote \<and>
      jm_Body (jx_Messages ex ! 0) = ''hi'' \<and>
      objectField (encodeMessage (jx_Messages ex ! 0)) ''body'' = Some (JString ''hi'') \<and>
      (\<exists>jq. jm_Quote (jx_Messages ex ! 0) = Some jq \<and>
         objectField (encodeMessage (jx_Messages ex ! 0)) ''quote'' = Some (encodeQuote jq) \<and>
         objectField (encodeQuote jq) ''from'' = Some (JString ''X'') \<and>
         objectField (encodeQuote jq) ''body'' = Some (JString ''orig'') \<and>
         map jq_From (jsonQuoteChain jq) = [''X'', ''Y''] \<and>
         map jq_Body (jsonQuoteChain jq) = [''orig'', ''older'']) \<and>
      msg_Edits ([quotingMessage, editedQuotingMessage] ! 1) \<noteq> [] \<and>
      msg_Quote ([quotingMessage, editedQuotingMessage] ! 1) = Some exampleResolvedQuote \<and>
      mb_Text (msg_Body ([quotingMessage, editedQuotingMessage] ! 1)) = ''hi'' \<and>
      jm_Body (jx_Messages ex ! 1) = [] \<and> jm_Quote (jx_Messages ex ! 1) = None \<and>
      objectField (encodeMessage (jx_Messages ex ! 1)) ''body'' = None \<and>
      objectField (encodeMessage (jx_Messages ex ! 1)) ''quote'' = None)"
proof -
  obtain ex
    where ex: "exportModel stubExtern emptyStore [quotingMessage, editedQuotingMessage] = Some ex"
    by (simp add: exportModel_def)
  have k0: "(0::nat) < length [quotingMessage, editedQuotingMessage]"
    and k1: "(1::nat) < length [quotingMessage, editedQuotingMessage]" by simp_all
  have e0: "msg_Edits quotingMessage = []"
    and q0: "msg_Quote quotingMessage = Some exampleResolvedQuote"
    and b0: "mb_Text (msg_Body quotingMessage) = ''hi''"
    and e1: "msg_Edits editedQuotingMessage \<noteq> []"
    and q1: "msg_Quote editedQuotingMessage = Some exampleResolvedQuote"
    and b1: "mb_Text (msg_Body editedQuotingMessage) = ''hi''"
    by (simp_all add: quotingMessage_def editedQuotingMessage_def editedMessage_def
        incomingMessage_def outgoingMessage_def)
  have c: "quoteChain exampleResolvedQuote =
      [exampleResolvedQuote, Quote (Some ''Y'') 0 \<lparr>mb_Text = ''older'', mb_Mentions = []\<rparr> [] None]"
    and r: "q_Recipient exampleResolvedQuote = Some ''X''"
    and t: "mb_Text (q_Body exampleResolvedQuote) = ''orig''"
    by (simp_all add: exampleResolvedQuote_def)
  have n: "DetailedDisplayName stubExtern (Some name) = name" for name
    by (simp add: stubExtern_def)
  from body_and_quote_only_without_edits [OF ex k0] e0 q0 b0 c r t n
  have a: "jm_Body (jx_Messages ex ! 0) = ''hi'' \<and>
      objectField (encodeMessage (jx_Messages ex ! 0)) ''body'' = Some (JString ''hi'') \<and>
      (\<exists>jq. jm_Quote (jx_Messages ex ! 0) = Some jq \<and>
         objectField (encodeMessage (jx_Messages ex ! 0)) ''quote'' = Some (encodeQuote jq) \<and>
         objectField (encodeQuote jq) ''from'' = Some (JString ''X'') \<and>
         objectField (encodeQuote jq) ''body'' = Some (JString ''orig'') \<and>
         map jq_From (jsonQuoteChain jq) = [''X'', ''Y''] \<and>
         map jq_Body (jsonQuoteChain jq) = [''orig'', ''older''])"
    by auto
  from body_and_quote_only_without_edits [OF ex k1] e1
  have b: "jm_Body (jx_Messages ex ! 1) = [] \<and> jm_Quote (jx_Messages ex ! 1) = None \<and>
      objectField (encodeMessage (jx_Messages ex ! 1)) ''body'' = None \<and>
      objectField (encodeMessage (jx_Messages ex ! 1)) ''quote'' = None"
    by simp
  from ex e0 q0 e1 q1 b1 a b show ?thesis by simp
qed

section \<open>The count of a group change\<close>

text \<open>
  C8. Every group change of a message is exported in its place; a count of zero leaves the
  \<open>count\<close> field out of the emitted record, and a count above zero is emitted as that
  very number.
\<close>

theorem group_change_count:
  assumes "exportModel x ctx msgs = Some ex" and "k < length msgs"
    and "g < length (msg_GroupV2Change (msgs ! k))"
  shows "length (jm_GroupV2Change (jx_Messages ex ! k)) = length (msg_GroupV2Change (msgs ! k)) \<and>
     (gc_Count (msg_GroupV2Change (msgs ! k) ! g) = 0 \<longrightarrow>
        objectField (encodeGroupV2Change (jm_GroupV2Change (jx_Messages ex ! k) ! g)) ''count'' = None) \<and>
     (0 < gc_Count (msg_GroupV2Change (msgs ! k) ! g) \<longrightarrow>
        jgc_Count (jm_GroupV2Change (jx_Messages ex ! k) ! g)
          = gc_Count (msg_GroupV2Change (msgs ! k) ! g) \<and>
        objectField (encodeGroupV2Change (jm_GroupV2Change (jx_Messages ex ! k) ! g)) ''count''
          = Some (JNumber (gc_Count (msg_GroupV2Change (msgs ! k) ! g))))"
proof -
  let ?gcs = "msg_GroupV2Change (msgs ! k)"
  let ?jgcs = "jm_GroupV2Change (jx_Messages ex ! k)"
  have "?jgcs = map (groupV2ChangeRecord x) ?gcs"
    using assms(1,2) by (simp add: exportModel_message messageRecord_def groupV2ChangeLoop_map)
  then have len: "length ?jgcs = length ?gcs"
    and jgc: "?jgcs ! g = groupV2ChangeRecord x (?gcs ! g)"
    using assms(3) by simp_all
  have c: "jgc_Count (groupV2ChangeRecord x gc) = gc_Count gc" for gc
    by (simp add: groupV2ChangeRecord_def Let_def)
  have f: "objectField (encodeGroupV2Change j) ''count''
             = (if jgc_Count j = 0 then None else Some (JNumber (jgc_Count j)))" for j
    by (simp add: encode_eval)
  show ?thesis
    using len by (simp add: jgc c f)
qed

theorem group_change_count_witness:
  "(\<exists>ex. exportModel stubExtern emptyStore [groupMessage] = Some ex \<and>
      (0::nat) < length [groupMessage] \<and>
      length (msg_GroupV2Change ([groupMessage] ! 0)) = 2 \<and>
      gc_Count (msg_GroupV2Change ([groupMessage] ! 0) ! 0) = 0 \<and>
      gc_Count (msg_GroupV2Change ([groupMessage] ! 0) ! 1) = 3 \<and>
      objectField (encodeGroupV2Change (jm_GroupV2Change (jx_Messages ex ! 0) ! 0)) ''count'' = None \<and>
      objectField (encodeGroupV2Change (jm_GroupV2Change (jx_Messages ex ! 0) ! 1)) ''count''
        = Some (JNumber 3))"
proof -
  obtain ex where ex: "exportModel stubExtern emptyStore [groupMessage] = Some ex"
    by (simp add: exportModel_def)
  have k: "(0::nat) < length [groupMessage]" by simp
  have n: "length (msg_GroupV2Change ([groupMessage] ! 0)) = 2"
    and c0: "gc_Count (msg_GroupV2Change ([groupMessage] ! 0) ! 0) = 0"
    and c1: "gc_Count (msg_GroupV2Change ([groupMessage] ! 0) ! 1) = 3"
    by (simp_all add: groupMessage_def exampleGroupChange_def)
  have g0: "0 < length (msg_GroupV2Change ([groupMessage] ! 0))"
    and g1: "1 < length (msg_GroupV2Change ([groupMessage] ! 0))"
    using n by simp_all
  from group_change_count [OF ex k g0] group_change_count [OF ex k g1] ex n c0 c1
  show ?thesis by simp
qed

section \<open>The received timestamp\<close>

text \<open>
  C10. For an outgoing message the \<open>received\<close> field is left out, whatever the received
  timestamp is; a \<open>received\<close> field that is emitted belongs to a message that is not
  outgoing and has a nonzero received timestamp, and holds that timestamp formatted.
\<close>

theorem received_only_for_incoming:
  assumes "exportModel x ctx msgs = Some ex" and "k < length msgs"
  shows "(IsOutgoing x (msgs ! k) \<longrightarrow>
            jm_Received (jx_Messages ex ! k) = [] \<and>
            objectField (encodeMessage (jx_Messages ex ! k)) ''received'' = None) \<and>
         (objectField (encodeMessage (jx_Messages ex ! k)) ''received'' \<noteq> None \<longrightarrow>
            \<not> IsOutgoing x (msgs ! k) \<and> msg_TimeRecv (msgs ! k) \<noteq> 0) \<and>
         (\<not> IsOutgoing x (msgs ! k) \<and> msg_TimeRecv (msgs ! k) \<noteq> 0 \<longrightarrow>
            jm_Received (jx_Messages ex ! k) = formatTime x (msg_TimeRecv (msgs ! k))) \<and>
         (\<forall>v. objectField (encodeMessage (jx_Messages ex ! k)) ''received'' = Some v \<longrightarrow>
            v = JString (formatTime x (msg_TimeRecv (msgs ! k))))"
proof -
  let ?jm = "jx_Messages ex ! k"
  have r: "jm_Received ?jm =
      (if \<not> IsOutgoing x (msgs ! k) \<and> msg_TimeRecv (msgs ! k) \<noteq> 0
       then formatTime x (msg_TimeRecv (msgs ! k)) else [])"
    using assms by (simp add: exportModel_message messageRecord_def)
  have f: "objectField (encodeMessage m) ''received''
             = (if jm_Received m = [] then None else Some (JString (jm_Received m)))" for m
    by (simp add: encode_eval split: option.splits)
  show ?thesis
    by (auto simp: r f split: if_splits)
qed

theorem received_only_for_incoming_witness:
  "(\<exists>ex. exportModel stubExtern emptyStore [outgoingMessage, incomingMessage] = Some ex \<and>
      IsOutgoing stubExtern ([outgoingMessage, incomingMessage] ! 0) \<and>
      msg_TimeRecv ([outgoingMessage, incomingMessage] ! 0) = 2000 \<and>
      objectField (encodeMessage (jx_Messages ex ! 0)) ''received'' = None \<and>
      \<not> IsOutgoing stubExtern ([outgoingMessage, incomingMessage] ! 1) \<and>
      msg_TimeRecv ([outgoingMessage, incomingMessage] ! 1) = 2000 \<and>
      jm_Received (jx_Messages ex ! 1) = ''1970-01-01 00:00:01'' \<and>
      objectField (encodeMessage (jx_Messages ex ! 1)) ''received''
        = Some (JString ''1970-01-01 00:00:01''))"
proof -
  obtain ex where ex: "exportModel stubExtern emptyStore [outgoingMessage, incomingMessage] = Some ex"
    by (simp add: exportModel_def)
  have k0: "(0::nat) < length [outgoingMessage, incomingMessage]"
    and k1: "(1::nat) < length [outgoingMessage, incomingMessage]" by simp_all
  have o0: "IsOutgoing stubExtern ([outgoingMessage, incomingMessage] ! 0)"
    and o1: "\<not> IsOutgoing stubExtern ([outgoingMessage, incomingMessage] ! 1)"
    and t0: "msg_TimeRecv ([outgoingMessage, incomingMessage] ! 0) = 2000"
    and t1: "msg_TimeRecv ([outgoingMessage, incomingMessage] ! 1) = 2000"
    and ft: "formatTime stubExtern 2000 = ''1970-01-01 00:00:01''"
    by (simp_all add: stubExtern_def outgoingMessage_def incomingMessage_def formatTime_def)
  note r0 = received_only_for_incoming [OF ex k0]
  note r1 = received_only_for_incoming [OF ex k1]
  from r1 o1 t1 ft have j1: "jm_Received (jx_Messages ex ! 1) = ''1970-01-01 00:00:01''"
    by simp
  then have f1: "objectField (encodeMessage (jx_Messages ex ! 1)) ''received''
        = Some (JString ''1970-01-01 00:00:01'')"
    by (simp add: encode_eval split: option.splits)
  from r0 ex o0 o1 t0 t1 j1 f1 show ?thesis by simp
qed

end
